theory Spec2Isabelle
  imports Complex_Main "HOL-Library.Product_Lexorder"
begin

section \<open>Demand forecasting service: a shallow embedding\<close>

text \<open>
  The development follows the three Python modules of \<^verbatim>\<open>backend/ml_service\<close>:
  \<^verbatim>\<open>app.py\<close> (forecast generation and aggregation), \<^verbatim>\<open>models.py\<close> (metrics,
  the tree-ensemble split, model selection) and \<^verbatim>\<open>data_pipeline.py\<close> (feature
  engineering).

  Numbers. Python floats are modelled as \<^typ>\<open>real\<close>: every value is a finite number,
  arithmetic is exact, and there is no NaN among the inputs. A float product such as
  \<^verbatim>\<open>pred * 0.85\<close> can differ from the exact product in its last binary digit; where
  the exact product sits on a rounding tie (for instance 2.5 * 1.18 = 2.95, whose float
  is just below 2.95 and rounds to 2.9 where the exact product rounds to 3.0) the
  rounded float can differ from the rounded real by one unit of the last kept decimal. This touches the reported band limits
  only; \<^verbatim>\<open>predicted_demand\<close> and the period totals are roundings of a single
  float or of a sum. Where pandas itself
  produces NaN (a shifted or joined cell with no value) the cell is an
  \<^typ>\<open>real option\<close> with \<^term>\<open>None\<close> for NaN.

  Dates. A date is the ordinal number of its day (\<^verbatim>\<open>date.toordinal()\<close>), an
  \<^typ>\<open>int\<close>; adding \<^verbatim>\<open>timedelta(days=i)\<close> adds \<open>i\<close>. What the datetime library
  derives from a date (year, month, weekday, ISO week, the formatted texts) is taken
  as a parameter, see \<open>cal\<close> below.

  Exceptions. A function that can raise returns \<open>error + 'a\<close>, \<^term>\<open>Inl\<close> being the
  exception.
\<close>

subsection \<open>Python helpers\<close>

datatype error =
  ValueError | IndexError | KeyError | TypeError | AttributeError | FileNotFoundError
| OSError | LibraryError

text \<open>A \<^verbatim>\<open>for\<close> loop whose body appends one element and may raise.\<close>

fun traverse :: "('a \<Rightarrow> error + 'b) \<Rightarrow> 'a list \<Rightarrow> error + 'b list" where
  "traverse f [] = Inr []"
| "traverse f (x # xs) =
     (case f x of
        Inl e \<Rightarrow> Inl e
      | Inr y \<Rightarrow> (case traverse f xs of Inl e \<Rightarrow> Inl e | Inr ys \<Rightarrow> Inr (y # ys)))"

text \<open>\<^verbatim>\<open>range(n)\<close> for an integer \<open>n\<close>: empty when \<open>n \<le> 0\<close>.\<close>

definition py_range :: "int \<Rightarrow> nat list" where
  "py_range n = [0..<nat n]"

text \<open>
  \<^verbatim>\<open>round(x, n)\<close>: the nearest multiple of \<open>10^-n\<close>, a tie going to the even
  neighbour.
\<close>

definition round_half_even :: "real \<Rightarrow> int" where
  "round_half_even x =
     (let f = \<lfloor>x\<rfloor>; d = x - of_int f
      in if d < 1 / 2 then f
         else if 1 / 2 < d then f + 1
         else if even f then f else f + 1)"

definition py_round :: "nat \<Rightarrow> real \<Rightarrow> real" where
  "py_round n x = of_int (round_half_even (x * 10 ^ n)) / 10 ^ n"

text \<open>\<^verbatim>\<open>xs[a:b]\<close> for \<open>0 \<le> a \<le> b\<close>, and \<^verbatim>\<open>xs[-n:]\<close>.\<close>

definition slice :: "nat \<Rightarrow> nat \<Rightarrow> 'a list \<Rightarrow> 'a list" where
  "slice a b xs = take (b - a) (drop a xs)"

definition last_n :: "nat \<Rightarrow> 'a list \<Rightarrow> 'a list" where
  "last_n n xs = drop (length xs - n) xs"

subsection \<open>The serving state and its environment (app.py)\<close>

text \<open>
  What the datetime library reads off a date: \<^verbatim>\<open>year\<close>, \<^verbatim>\<open>month\<close>, \<^verbatim>\<open>day\<close>,
  \<^verbatim>\<open>dayofweek\<close> (Monday is 0), the ISO week, the day of the year and the texts of
  \<^verbatim>\<open>strftime('%Y-%m-%d')\<close> and \<^verbatim>\<open>strftime('%A')\<close>.
\<close>

record cal =
  c_year :: int
  c_month :: int
  c_day :: int
  c_dayofweek :: int
  c_isoweek :: int
  c_yday :: int
  c_text :: string
  c_day_name :: string

text \<open>
  A row of \<^verbatim>\<open>processed_data.csv\<close> as \<^verbatim>\<open>pd.read_csv(..., parse_dates=['date'])\<close>
  gives it: the date, the \<^verbatim>\<open>sales\<close> column, and every other column by name, a
  number or a text (\<^verbatim>\<open>item_category\<close>).
\<close>

datatype cell = Num real | Text string

record prow =
  p_date :: int
  p_sales :: real
  p_other :: "string \<rightharpoonup> cell"

text \<open>
  The environment of a request: today's date, the calendar functions, and the
  processed table (\<^term>\<open>None\<close> when the file cannot be read).
\<close>

record env =
  today :: int
  calendar :: "int \<Rightarrow> cal"
  now_text :: string
  processed :: "prow list option"

text \<open>
  The fitted min-max scaler, the three kinds of trained artifact, and the two global
  variables \<^verbatim>\<open>loaded_model\<close> and \<^verbatim>\<open>loaded_model_name\<close>. The estimators are library
  objects: the boosted trees map one feature vector to a number, the seasonal model
  maps a number of steps to that many values (or raises), the network maps one
  lookback window to a number.
\<close>

record scaler =
  transform :: "real \<Rightarrow> real"
  inverse_transform :: "real \<Rightarrow> real"

datatype artifact =
  XGBoost_artifact "real list \<Rightarrow> real" "string list"
| SARIMA_artifact "int \<Rightarrow> error + real list"
| LSTM_artifact "real list \<Rightarrow> real" scaler

record state =
  loaded_model :: "artifact option"
  loaded_model_name :: "string option"

record forecast_point =
  fp_date :: string
  day_name :: string
  predicted_demand :: real
  confidence_lower :: real
  confidence_upper :: real

subsection \<open>generate_xgboost_forecast\<close>

text \<open>
  The template row with the twelve date-derived columns overwritten for the forecast
  date (app.py lines 107 to 119).
\<close>

definition override_date_fields :: "cal \<Rightarrow> (string \<rightharpoonup> cell) \<Rightarrow> (string \<rightharpoonup> cell)" where
  "override_date_fields c row =
     row(''day_of_week'' \<mapsto> Num (of_int (c_dayofweek c)),
         ''day_of_month'' \<mapsto> Num (of_int (c_day c)),
         ''month'' \<mapsto> Num (of_int (c_month c)),
         ''year'' \<mapsto> Num (of_int (c_year c)),
         ''week_of_year'' \<mapsto> Num (of_int (c_isoweek c)),
         ''is_weekend'' \<mapsto> Num (if c_dayofweek c \<ge> 5 then 1 else 0),
         ''quarter'' \<mapsto> Num (of_int ((c_month c - 1) div 3 + 1)),
         ''day_of_year'' \<mapsto> Num (of_int (c_yday c)),
         ''dow_sin'' \<mapsto> Num (sin (2 * pi * of_int (c_dayofweek c) / 7)),
         ''dow_cos'' \<mapsto> Num (cos (2 * pi * of_int (c_dayofweek c) / 7)),
         ''month_sin'' \<mapsto> Num (sin (2 * pi * of_int (c_month c) / 12)),
         ''month_cos'' \<mapsto> Num (cos (2 * pi * of_int (c_month c) / 12)))"

text \<open>
  \<^verbatim>\<open>float(row[col]) if col in row.index else 0.0\<close>. The \<^verbatim>\<open>date\<close> cell is a
  timestamp, on which \<^verbatim>\<open>float\<close> raises TypeError; on a text it raises ValueError.
\<close>

definition feature_value :: "prow \<Rightarrow> (string \<rightharpoonup> cell) \<Rightarrow> string \<Rightarrow> error + real" where
  "feature_value last_row row col =
     (case row col of
        Some (Num v) \<Rightarrow> Inr v
      | Some (Text s) \<Rightarrow> Inl ValueError
      | None \<Rightarrow>
          if col = ''date'' then Inl TypeError
          else if col = ''sales'' then Inr (p_sales last_row)
          else Inr 0)"

definition xgboost_point ::
  "env \<Rightarrow> (real list \<Rightarrow> real) \<Rightarrow> string list \<Rightarrow> prow \<Rightarrow> nat \<Rightarrow> error + forecast_point" where
  "xgboost_point e model feature_cols last_row i =
     (let forecast_date = calendar e (today e + int i);
          row = override_date_fields forecast_date (p_other last_row)
      in case traverse (feature_value last_row row) feature_cols of
           Inl err \<Rightarrow> Inl err
         | Inr features \<Rightarrow>
             (let pred = max 0 (model features);
                  lower = max 0 (pred * 0.85);
                  upper = pred * 1.15
              in Inr \<lparr>fp_date = c_text forecast_date,
                      day_name = c_day_name forecast_date,
                      predicted_demand = py_round 1 pred,
                      confidence_lower = py_round 1 lower,
                      confidence_upper = py_round 1 upper\<rparr>))"

text \<open>
  \<^verbatim>\<open>df.sort_values('date')\<close> is modelled by a stable sort; \<^verbatim>\<open>df.iloc[-1]\<close> raises
  IndexError on an empty table. The boosted-tree and the network artifacts are
  dictionaries, the seasonal one is a fitted object: subscripting the object or
  \<^verbatim>\<open>None\<close> raises TypeError, a dictionary without the key raises KeyError, and
  \<^verbatim>\<open>.forecast\<close> on a dictionary or on \<^verbatim>\<open>None\<close> raises AttributeError.
\<close>

definition generate_xgboost_forecast :: "env \<Rightarrow> state \<Rightarrow> int \<Rightarrow> error + forecast_point list" where
  "generate_xgboost_forecast e st days =
     (case loaded_model st of
        Some (XGBoost_artifact model feature_cols) \<Rightarrow>
          (case processed e of
             None \<Rightarrow> Inl FileNotFoundError
           | Some df \<Rightarrow>
               (case sort_key p_date df of
                  [] \<Rightarrow> Inl IndexError
                | r # rs \<Rightarrow>
                    traverse (xgboost_point e model feature_cols (last (r # rs))) (py_range days)))
      | Some (LSTM_artifact model sc) \<Rightarrow> Inl KeyError
      | Some (SARIMA_artifact model_forecast) \<Rightarrow> Inl TypeError
      | None \<Rightarrow> Inl TypeError)"

subsection \<open>generate_arima_forecast\<close>

definition arima_point :: "env \<Rightarrow> nat \<times> real \<Rightarrow> forecast_point" where
  "arima_point e iv =
     (let forecast_date = calendar e (today e + int (fst iv));
          pred = snd iv
      in \<lparr>fp_date = c_text forecast_date,
           day_name = c_day_name forecast_date,
           predicted_demand = py_round 1 pred,
           confidence_lower = py_round 1 (max 0 (pred * 0.80)),
           confidence_upper = py_round 1 (pred * 1.20)\<rparr>)"

definition generate_arima_forecast :: "env \<Rightarrow> state \<Rightarrow> int \<Rightarrow> error + forecast_point list" where
  "generate_arima_forecast e st days =
     (case loaded_model st of
        Some (SARIMA_artifact model_forecast) \<Rightarrow>
          (case model_forecast days of
             Inl err \<Rightarrow> Inl err
           | Inr forecast \<Rightarrow>
               (let forecast = map (\<lambda>v. max v 0) forecast
                in Inr (map (arima_point e) (enumerate 0 forecast))))
      | _ \<Rightarrow> Inl AttributeError)"

subsection \<open>generate_lstm_forecast\<close>

text \<open>
  \<^verbatim>\<open>df.groupby('date')['sales'].sum().sort_index().values\<close>: one total per distinct
  date, in date order.
\<close>

definition daily_total :: "prow list \<Rightarrow> real list" where
  "daily_total df =
     map (\<lambda>d. sum_list (map p_sales (filter (\<lambda>r. p_date r = d) df)))
         (sort (remdups (map p_date df)))"

definition lookback :: nat where
  "lookback = 30"

text \<open>
  One pass of the loop of lines 191 to 207 reports this point for the raw network
  output \<open>pred_scaled\<close>: the output is mapped back by the scaler and clamped at 0.
\<close>

definition lstm_point :: "env \<Rightarrow> scaler \<Rightarrow> nat \<Rightarrow> real \<Rightarrow> forecast_point" where
  "lstm_point e sc i pred_scaled =
     (let pred = max 0 (inverse_transform sc pred_scaled);
          forecast_date = calendar e (today e + int i)
      in \<lparr>fp_date = c_text forecast_date,
           day_name = c_day_name forecast_date,
           predicted_demand = py_round 1 pred,
           confidence_lower = py_round 1 (max 0 (pred * 0.82)),
           confidence_upper = py_round 1 (pred * 1.18)\<rparr>)"

text \<open>
  The loop itself, as a recursion on the remaining values of \<open>i\<close>. Its state is
  \<^verbatim>\<open>current_input\<close> and \<^verbatim>\<open>forecasts\<close>; both are returned.
  \<^verbatim>\<open>reshape(1, lookback, 1)\<close> raises ValueError unless the slice
  \<^verbatim>\<open>current_input[-lookback:]\<close> has exactly \<open>lookback\<close> elements.
\<close>

fun lstm_loop ::
  "env \<Rightarrow> (real list \<Rightarrow> real) \<Rightarrow> scaler \<Rightarrow> nat list \<Rightarrow> real list \<Rightarrow> forecast_point list
   \<Rightarrow> error + (forecast_point list \<times> real list)" where
  "lstm_loop e model sc [] current_input forecasts = Inr (forecasts, current_input)"
| "lstm_loop e model sc (i # is) current_input forecasts =
     (let X = last_n lookback current_input
      in if length X \<noteq> lookback then Inl ValueError
         else
           (let pred_scaled = model X
            in lstm_loop e model sc is (current_input @ [pred_scaled])
                 (forecasts @ [lstm_point e sc i pred_scaled])))"

text \<open>
  The scaler's \<^verbatim>\<open>transform\<close> refuses an array with no sample (ValueError), which is
  what an empty table gives.
\<close>

definition lstm_run :: "env \<Rightarrow> state \<Rightarrow> int \<Rightarrow> error + (forecast_point list \<times> real list)" where
  "lstm_run e st days =
     (case loaded_model st of
        Some (LSTM_artifact model sc) \<Rightarrow>
          (case processed e of
             None \<Rightarrow> Inl FileNotFoundError
           | Some df \<Rightarrow>
               (let recent = last_n lookback (daily_total df)
                in if recent = [] then Inl ValueError
                   else lstm_loop e model sc (py_range days) (map (transform sc) recent) []))
      | Some (XGBoost_artifact model feature_cols) \<Rightarrow> Inl KeyError
      | Some (SARIMA_artifact model_forecast) \<Rightarrow> Inl TypeError
      | None \<Rightarrow> Inl TypeError)"

definition generate_lstm_forecast :: "env \<Rightarrow> state \<Rightarrow> int \<Rightarrow> error + forecast_point list" where
  "generate_lstm_forecast e st days = map_sum id fst (lstm_run e st days)"

subsection \<open>generate_forecast and the three forecast routes\<close>

definition generate_forecast :: "env \<Rightarrow> state \<Rightarrow> int \<Rightarrow> error + forecast_point list" where
  "generate_forecast e st days =
     (if loaded_model_name st = Some ''XGBoost'' then generate_xgboost_forecast e st days
      else if loaded_model_name st = Some ''SARIMA'' then generate_arima_forecast e st days
      else if loaded_model_name st = Some ''LSTM'' then generate_lstm_forecast e st days
      else Inr [])"

text \<open>
  A query argument as the route receives it: absent, a text \<^verbatim>\<open>int()\<close> accepts (with
  its value), or a text on which \<^verbatim>\<open>int()\<close> raises ValueError.
\<close>

datatype query_arg = Absent | Int_text int | Bad_text

definition int_arg :: "query_arg \<Rightarrow> int \<Rightarrow> error + int" where
  "int_arg a dflt = (case a of Absent \<Rightarrow> Inr dflt | Int_text n \<Rightarrow> Inr n | Bad_text \<Rightarrow> Inl ValueError)"

record aggregated_period =
  period_number :: nat
  start_date :: string
  end_date :: string
  total_predicted_demand :: real
  avg_daily_demand :: real
  agg_lower :: real
  agg_upper :: real

text \<open>
  The body of a JSON answer: the error message of the 503 answer, the exception of a
  500 answer, or the forecast (model used, generation time, horizon and its unit, data).
\<close>

datatype body =
  Error_message string
| Exception_text error
| Daily_forecast "string option" string int "forecast_point list"
| Weekly_forecast "string option" string int "aggregated_period list"
| Monthly_forecast "string option" string int "aggregated_period list"

record response =
  status :: nat
  payload :: body

definition daily_forecast :: "env \<Rightarrow> state \<Rightarrow> query_arg \<Rightarrow> response" where
  "daily_forecast e st arg =
     (if loaded_model st = None
      then \<lparr>status = 503, payload = Error_message ''No model loaded. Run train.py first.''\<rparr>
      else case int_arg arg 7 of
             Inl err \<Rightarrow> \<lparr>status = 500, payload = Exception_text err\<rparr>
           | Inr days \<Rightarrow>
               (let days = min days 30
                in case generate_forecast e st days of
                     Inl err \<Rightarrow> \<lparr>status = 500, payload = Exception_text err\<rparr>
                   | Inr forecasts \<Rightarrow>
                       \<lparr>status = 200,
                        payload = Daily_forecast (loaded_model_name st) (now_text e) days forecasts\<rparr>))"

text \<open>
  The week loop of lines 270 to 286 and the month loop of lines 311 to 327 are the
  same text up to the block size and the two band factors, which are the parameters
  here.
\<close>

definition aggregate ::
  "nat \<Rightarrow> real \<Rightarrow> real \<Rightarrow> int \<Rightarrow> forecast_point list \<Rightarrow> aggregated_period list" where
  "aggregate block lo hi periods daily_data =
     concat (map (\<lambda>w.
       (let block_slice = slice (w * block) ((w + 1) * block) daily_data
        in if block_slice \<noteq> [] then
             (let total = sum_list (map predicted_demand block_slice);
                  avg = total / of_nat (length block_slice)
              in [\<lparr>period_number = w + 1,
                    start_date = fp_date (hd block_slice),
                    end_date = fp_date (last block_slice),
                    total_predicted_demand = py_round 1 total,
                    avg_daily_demand = py_round 1 avg,
                    agg_lower = py_round 1 (total * lo),
                    agg_upper = py_round 1 (total * hi)\<rparr>])
           else [])) (py_range periods))"

text \<open>The period that one pass of the loop body builds for block \<open>w\<close>.\<close>

definition period_of ::
  "nat \<Rightarrow> real \<Rightarrow> real \<Rightarrow> forecast_point list \<Rightarrow> nat \<Rightarrow> aggregated_period" where
  "period_of block lo hi daily_data w =
     (let block_slice = slice (w * block) ((w + 1) * block) daily_data;
          total = sum_list (map predicted_demand block_slice)
      in \<lparr>period_number = w + 1,
           start_date = fp_date (hd block_slice),
           end_date = fp_date (last block_slice),
           total_predicted_demand = py_round 1 total,
           avg_daily_demand = py_round 1 (total / of_nat (length block_slice)),
           agg_lower = py_round 1 (total * lo),
           agg_upper = py_round 1 (total * hi)\<rparr>)"

definition weekly_data :: "int \<Rightarrow> forecast_point list \<Rightarrow> aggregated_period list" where
  "weekly_data weeks daily_data = aggregate 7 0.85 1.15 weeks daily_data"

definition monthly_data :: "int \<Rightarrow> forecast_point list \<Rightarrow> aggregated_period list" where
  "monthly_data months daily_data = aggregate 30 0.82 1.18 months daily_data"

definition weekly_forecast :: "env \<Rightarrow> state \<Rightarrow> query_arg \<Rightarrow> response" where
  "weekly_forecast e st arg =
     (if loaded_model st = None
      then \<lparr>status = 503, payload = Error_message ''No model loaded. Run train.py first.''\<rparr>
      else case int_arg arg 4 of
             Inl err \<Rightarrow> \<lparr>status = 500, payload = Exception_text err\<rparr>
           | Inr weeks \<Rightarrow>
               (let weeks = min weeks 12
                in case generate_forecast e st (weeks * 7) of
                     Inl err \<Rightarrow> \<lparr>status = 500, payload = Exception_text err\<rparr>
                   | Inr daily_data \<Rightarrow>
                       \<lparr>status = 200,
                        payload = Weekly_forecast (loaded_model_name st) (now_text e) weeks
                                    (weekly_data weeks daily_data)\<rparr>))"

definition monthly_forecast :: "env \<Rightarrow> state \<Rightarrow> query_arg \<Rightarrow> response" where
  "monthly_forecast e st arg =
     (if loaded_model st = None
      then \<lparr>status = 503, payload = Error_message ''No model loaded. Run train.py first.''\<rparr>
      else case int_arg arg 3 of
             Inl err \<Rightarrow> \<lparr>status = 500, payload = Exception_text err\<rparr>
           | Inr months \<Rightarrow>
               (let months = min months 6
                in case generate_forecast e st (months * 30) of
                     Inl err \<Rightarrow> \<lparr>status = 500, payload = Exception_text err\<rparr>
                   | Inr daily_data \<Rightarrow>
                       \<lparr>status = 200,
                        payload = Monthly_forecast (loaded_model_name st) (now_text e) months
                                    (monthly_data months daily_data)\<rparr>))"

subsection \<open>Example data\<close>

text \<open>
  A small concrete world for evaluating the definitions: a processed table with one row
  for each of thirty consecutive dates, and one state for each kind of artifact. The raw
  outputs of the three example models are negative somewhere.
\<close>

definition demo_cal :: "int \<Rightarrow> cal" where
  "demo_cal d =
     \<lparr>c_year = 2026, c_month = 1, c_day = d - 739616, c_dayofweek = (d + 6) mod 7,
      c_isoweek = 1, c_yday = d - 739616, c_text = ''2026-01'', c_day_name = ''day''\<rparr>"

definition demo_table :: "prow list" where
  "demo_table = map (\<lambda>d. \<lparr>p_date = d, p_sales = 40, p_other = Map.empty\<rparr>) [1..30]"

definition demo_env :: env where
  "demo_env = \<lparr>today = 739617, calendar = demo_cal, now_text = ''now'',
                processed = Some demo_table\<rparr>"

definition demo_scaler :: scaler where
  "demo_scaler = \<lparr>transform = (\<lambda>x. x / 100), inverse_transform = (\<lambda>y. y * 100)\<rparr>"

definition demo_sarima :: state where
  "demo_sarima = \<lparr>loaded_model = Some (SARIMA_artifact (\<lambda>n. Inr [- 3, 5 / 2])),
                   loaded_model_name = Some ''SARIMA''\<rparr>"

definition demo_xgboost :: state where
  "demo_xgboost = \<lparr>loaded_model = Some (XGBoost_artifact (\<lambda>fs. - 3) [''month'', ''item'']),
                    loaded_model_name = Some ''XGBoost''\<rparr>"

definition demo_lstm :: state where
  "demo_lstm = \<lparr>loaded_model = Some (LSTM_artifact (\<lambda>w. last w / 2 - 1) demo_scaler),
                 loaded_model_name = Some ''LSTM''\<rparr>"

definition demo_idle :: state where
  "demo_idle = \<lparr>loaded_model = None, loaded_model_name = None\<rparr>"

definition demo_points :: "forecast_point list" where
  "demo_points =
     map (\<lambda>i. \<lparr>fp_date = ''2026-01'', day_name = ''day'',
               predicted_demand = of_int (int i + 10) / 10,
               confidence_lower = 0, confidence_upper = 0\<rparr>) [0..<9]"


text \<open>A processed table with a single date, too short for one lookback window.\<close>

definition demo_short_env :: env where
  "demo_short_env = \<lparr>today = 739617, calendar = demo_cal, now_text = ''now'',
      processed = Some [\<lparr>p_date = 1, p_sales = 40, p_other = Map.empty\<rparr>]\<rparr>"

subsection \<open>models.py: compute_metrics\<close>

text \<open>
  The arguments are one-dimensional float arrays, as lists. The two scikit-learn
  metrics raise ValueError when the arrays differ in length or are empty.
  \<^verbatim>\<open>np.mean\<close> is only applied to a non-empty array here.
\<close>

definition np_mean :: "real list \<Rightarrow> real" where
  "np_mean xs = sum_list xs / of_nat (length xs)"

definition mean_squared_error :: "real list \<Rightarrow> real list \<Rightarrow> error + real" where
  "mean_squared_error y_true y_pred =
     (if length y_true \<noteq> length y_pred \<or> y_true = [] then Inl ValueError
      else Inr (np_mean (map2 (\<lambda>t p. (t - p)\<^sup>2) y_true y_pred)))"

definition mean_absolute_error :: "real list \<Rightarrow> real list \<Rightarrow> error + real" where
  "mean_absolute_error y_true y_pred =
     (if length y_true \<noteq> length y_pred \<or> y_true = [] then Inl ValueError
      else Inr (np_mean (map2 (\<lambda>t p. \<bar>t - p\<bar>) y_true y_pred)))"

text \<open>Indexing an array with a boolean mask: \<^verbatim>\<open>xs[mask]\<close>.\<close>

definition bool_index :: "'a list \<Rightarrow> bool list \<Rightarrow> 'a list" where
  "bool_index xs flags = map fst (filter snd (zip xs flags))"

record metrics =
  rmse :: real
  mae :: real
  mape :: real

definition compute_metrics :: "real list \<Rightarrow> real list \<Rightarrow> error + metrics" where
  "compute_metrics y_true y_pred =
     (case mean_squared_error y_true y_pred of
        Inl err \<Rightarrow> Inl err
      | Inr mse \<Rightarrow>
          (case mean_absolute_error y_true y_pred of
             Inl err \<Rightarrow> Inl err
           | Inr mae_value \<Rightarrow>
               (let rmse_value = sqrt mse;
                    mask = map (\<lambda>t. t > 0) y_true;
                    mape_value =
                      (if length (filter id mask) > 0
                       then np_mean (map abs (map2 (/)
                              (map2 (-) (bool_index y_true mask) (bool_index y_pred mask))
                              (bool_index y_true mask))) * 100
                       else 0)
                in Inr \<lparr>rmse = py_round 4 rmse_value,
                        mae = py_round 4 mae_value,
                        mape = py_round 2 mape_value\<rparr>)))"

subsection \<open>models.py: select_best_model\<close>

text \<open>
  What a trainer returns when it succeeds; \<^verbatim>\<open>None\<close> when it fails. Only the
  name and the metrics are read by the selection.
\<close>

record train_result =
  tr_name :: string
  tr_metrics :: metrics
  model_path :: string

record comparison =
  best_model :: string
  trained_at :: string
  models :: "(string \<times> metrics) list"

text \<open>
  \<^verbatim>\<open>min(xs, key=f)\<close> on a non-empty list keeps the first element and replaces it
  only by an element whose key is strictly smaller.
\<close>

fun py_min_key :: "('a \<Rightarrow> real) \<Rightarrow> 'a \<Rightarrow> 'a list \<Rightarrow> 'a" where
  "py_min_key f best [] = best"
| "py_min_key f best (x # xs) = py_min_key f (if f x < f best then x else best) xs"

text \<open>\<^verbatim>\<open>d[k] = v\<close> on a dictionary kept as the list of its items in insertion order.\<close>

fun dict_set :: "'k \<Rightarrow> 'v \<Rightarrow> ('k \<times> 'v) list \<Rightarrow> ('k \<times> 'v) list" where
  "dict_set k v [] = [(k, v)]"
| "dict_set k v ((k', v') # kvs) =
     (if k = k' then (k, v) # kvs else (k', v') # dict_set k v kvs)"

text \<open>
  The comparison is written to \<^verbatim>\<open>model_comparison.json\<close> before the function
  returns; \<open>writable\<close> says whether the file system accepts the write (OSError
  otherwise). \<open>now\<close> is the text of the current time.
\<close>

definition select_best_model ::
  "string \<Rightarrow> bool \<Rightarrow> train_result option list \<Rightarrow> error + (train_result \<times> comparison)" where
  "select_best_model now writable results =
     (let valid = map the (filter (\<lambda>r. r \<noteq> None) results)
      in if valid = [] then Inl ValueError
         else
           (let best = py_min_key (\<lambda>x. rmse (tr_metrics x)) (hd valid) (tl valid);
                comparison = \<lparr>best_model = tr_name best,
                              trained_at = now,
                              models = fold (\<lambda>r. dict_set (tr_name r) (tr_metrics r)) valid []\<rparr>
            in if writable then Inr (best, comparison) else Inl OSError))"

definition first_min :: "('a \<Rightarrow> real) \<Rightarrow> 'a list \<Rightarrow> nat \<Rightarrow> bool" where
  "first_min f ys i =
     (i < length ys \<and> list_all (\<lambda>y. f (ys ! i) \<le> f y) ys \<and>
      list_all (\<lambda>y. f (ys ! i) < f y) (take i ys))"

definition demo_result :: "string \<Rightarrow> real \<Rightarrow> train_result" where
  "demo_result n r =
     \<lparr>tr_name = n, tr_metrics = \<lparr>rmse = r, mae = 1, mape = 2\<rparr>, model_path = ''models''\<rparr>"

subsection \<open>data_pipeline.py: engineer_features\<close>

text \<open>
  A record of the raw sales table (\<^verbatim>\<open>date, store, item, sales\<close>) and a row of the
  weather table. A weather value can be missing (NaN).
\<close>

record sale =
  s_date :: int
  s_store :: int
  s_item :: int
  s_sales :: real

record weather_row =
  w_date :: int
  w_temperature_max :: "real option"
  w_temperature_min :: "real option"
  w_temperature_mean :: "real option"
  w_precipitation :: "real option"
  w_rainfall :: "real option"

text \<open>
  The columns of \<^verbatim>\<open>daily\<close> after the weather merge and the calendar flags (lines
  237 to 262), and the columns added after the sort (lines 264 to 297).
\<close>

record mrow =
  date :: int
  item :: int
  sales :: real
  day_of_week :: int
  day_of_month :: int
  month :: int
  year :: int
  week_of_year :: int
  is_weekend :: int
  quarter :: int
  day_of_year :: int
  dow_sin :: real
  dow_cos :: real
  month_sin :: real
  month_cos :: real
  temperature_max :: "real option"
  temperature_min :: "real option"
  temperature_mean :: "real option"
  precipitation :: "real option"
  rainfall :: "real option"
  is_rainy :: int
  is_hot :: int
  temp_range :: "real option"
  is_semester :: int
  is_exam :: int
  is_holiday :: int
  is_vacation :: int

record frow = mrow +
  sales_lag_1 :: "real option"
  sales_lag_7 :: "real option"
  sales_lag_14 :: "real option"
  sales_lag_28 :: "real option"
  sales_rolling_mean_7 :: real
  sales_rolling_std_7 :: "real option"
  sales_rolling_mean_14 :: real
  sales_rolling_std_14 :: "real option"
  sales_rolling_mean_30 :: real
  sales_rolling_std_30 :: "real option"
  sales_expanding_mean :: real
  item_category :: "string option"
  cat_dummies :: "(string \<times> bool) list"

text \<open>
  \<^verbatim>\<open>df.groupby(['date', 'item']).agg({'sales': 'sum'}).reset_index()\<close>: one row per
  distinct pair, in the order of the pairs, with the sum of the sales of the pair.
\<close>

definition daily_sales :: "sale list \<Rightarrow> (int \<times> int \<times> real) list" where
  "daily_sales df =
     map (\<lambda>(d, i). (d, i, sum_list (map s_sales (filter (\<lambda>s. s_date s = d \<and> s_item s = i) df))))
         (sort (remdups (map (\<lambda>s. (s_date s, s_item s)) df)))"

text \<open>
  One row of \<^verbatim>\<open>daily\<close> with its temporal columns, the columns of one weather row
  (\<^term>\<open>None\<close>: no weather row for the date, every weather column is NaN), the three
  weather interaction columns and the four calendar flags. A comparison with NaN is
  false, a difference with NaN is NaN.
\<close>

definition feature_row ::
  "(int \<Rightarrow> cal) \<Rightarrow> int set \<Rightarrow> int set \<Rightarrow> int set \<Rightarrow> int set \<Rightarrow>
   int \<times> int \<times> real \<Rightarrow> weather_row option \<Rightarrow> mrow" where
  "feature_row cal_of semester_dates exam_dates holiday_dates vacation_dates dis w =
     (let d = fst dis;
          c = cal_of d;
          t_max = (case w of None \<Rightarrow> None | Some x \<Rightarrow> w_temperature_max x);
          t_min = (case w of None \<Rightarrow> None | Some x \<Rightarrow> w_temperature_min x);
          rain = (case w of None \<Rightarrow> None | Some x \<Rightarrow> w_rainfall x)
      in \<lparr>date = d,
          item = fst (snd dis),
          sales = snd (snd dis),
          day_of_week = c_dayofweek c,
          day_of_month = c_day c,
          month = c_month c,
          year = c_year c,
          week_of_year = c_isoweek c,
          is_weekend = (if c_dayofweek c \<ge> 5 then 1 else 0),
          quarter = (c_month c - 1) div 3 + 1,
          day_of_year = c_yday c,
          dow_sin = sin (2 * pi * of_int (c_dayofweek c) / 7),
          dow_cos = cos (2 * pi * of_int (c_dayofweek c) / 7),
          month_sin = sin (2 * pi * of_int (c_month c) / 12),
          month_cos = cos (2 * pi * of_int (c_month c) / 12),
          temperature_max = t_max,
          temperature_min = t_min,
          temperature_mean = (case w of None \<Rightarrow> None | Some x \<Rightarrow> w_temperature_mean x),
          precipitation = (case w of None \<Rightarrow> None | Some x \<Rightarrow> w_precipitation x),
          rainfall = rain,
          is_rainy = (case rain of None \<Rightarrow> 0 | Some x \<Rightarrow> if x > 2 then 1 else 0),
          is_hot = (case t_max of None \<Rightarrow> 0 | Some x \<Rightarrow> if x > 35 then 1 else 0),
          temp_range =
            (case t_max of None \<Rightarrow> None
             | Some a \<Rightarrow> (case t_min of None \<Rightarrow> None | Some b \<Rightarrow> Some (a - b))),
          is_semester = (if d \<in> semester_dates then 1 else 0),
          is_exam = (if d \<in> exam_dates then 1 else 0),
          is_holiday = (if d \<in> holiday_dates then 1 else 0),
          is_vacation = (if d \<in> vacation_dates then 1 else 0)\<rparr>)"

text \<open>
  \<^verbatim>\<open>daily.merge(weather_df, on='date', how='left')\<close>: a row of \<^verbatim>\<open>daily\<close> is joined
  with every weather row of its date, in their order, and kept once with NaN when
  there is none.
\<close>

definition merge_weather ::
  "(int \<Rightarrow> cal) \<Rightarrow> int set \<Rightarrow> int set \<Rightarrow> int set \<Rightarrow> int set \<Rightarrow>
   weather_row list \<Rightarrow> int \<times> int \<times> real \<Rightarrow> mrow list" where
  "merge_weather cal_of semester_dates exam_dates holiday_dates vacation_dates weather_df dis =
     (let matches = filter (\<lambda>w. w_date w = fst dis) weather_df
      in if matches = []
         then [feature_row cal_of semester_dates exam_dates holiday_dates vacation_dates dis None]
         else map (\<lambda>w. feature_row cal_of semester_dates exam_dates holiday_dates vacation_dates
                          dis (Some w)) matches)"

text \<open>
  Series operations of pandas on the sales of one group, oldest first.
  \<^verbatim>\<open>shift(lag)\<close> moves the values down by \<open>lag\<close> rows and fills with NaN;
  \<^verbatim>\<open>rolling(window, min_periods=1)\<close> gives for each row the up to \<open>window\<close> values
  ending at it; \<^verbatim>\<open>expanding(min_periods=1)\<close> gives all values up to it;
  \<^verbatim>\<open>std\<close> is the sample standard deviation, NaN on fewer than two values.
\<close>

definition shift :: "nat \<Rightarrow> real list \<Rightarrow> real option list" where
  "shift lag xs = replicate (min lag (length xs)) None @ map Some (take (length xs - lag) xs)"

definition rolling :: "nat \<Rightarrow> real list \<Rightarrow> real list list" where
  "rolling window xs = map (\<lambda>k. drop (Suc k - window) (take (Suc k) xs)) [0..<length xs]"

definition expanding :: "real list \<Rightarrow> real list list" where
  "expanding xs = map (\<lambda>k. take (Suc k) xs) [0..<length xs]"

definition sample_std :: "real list \<Rightarrow> real option" where
  "sample_std ws =
     (if length ws < 2 then None
      else Some (sqrt (sum_list (map (\<lambda>x. (x - np_mean ws)\<^sup>2) ws) / of_nat (length ws - 1))))"

text \<open>
  \<^verbatim>\<open>tbl.groupby(key)[col].transform(f)\<close> (and \<^verbatim>\<open>.shift\<close>): \<open>f\<close> is applied to the
  column of each group, and a row receives the value at its own rank within its
  group. Every \<open>f\<close> used below returns as many values as it is given.
\<close>

definition group_rank :: "('r \<Rightarrow> 'k) \<Rightarrow> 'r list \<Rightarrow> nat \<Rightarrow> nat" where
  "group_rank key tbl p = length (filter (\<lambda>r. key r = key (tbl ! p)) (take p tbl))"

definition groupby_transform ::
  "('r \<Rightarrow> 'k) \<Rightarrow> ('r \<Rightarrow> 'a) \<Rightarrow> ('a list \<Rightarrow> 'b list) \<Rightarrow> 'r list \<Rightarrow> 'b list" where
  "groupby_transform key col f tbl =
     map (\<lambda>p. f (map col (filter (\<lambda>r. key r = key (tbl ! p)) tbl)) ! group_rank key tbl p)
         [0..<length tbl]"

text \<open>The dictionary built by the loop of lines 289 to 290.\<close>

definition categories :: "string list" where
  "categories = [''veg'', ''non-veg'', ''beverage'', ''dessert'', ''snack'']"

definition item_categories :: "int \<rightharpoonup> string" where
  "item_categories =
     map_of (map (\<lambda>i. (i, categories ! nat ((i - 1) mod int (length categories)))) [1..50])"

text \<open>
  \<^verbatim>\<open>pd.get_dummies(col, prefix='cat')\<close> makes one column for each value present in
  the column, in alphabetical order. The values are among the five categories.
\<close>

definition dummy_columns :: "string option list \<Rightarrow> string list" where
  "dummy_columns col =
     filter (\<lambda>c. Some c \<in> set col) [''beverage'', ''dessert'', ''non-veg'', ''snack'', ''veg'']"

text \<open>
  Lines 264 to 297 on the sorted table: the four lags, the rolling mean and deviation
  for the three windows, the expanding mean, the category and its indicator columns.
\<close>

definition group_features :: "mrow list \<Rightarrow> frow list" where
  "group_features daily =
     (let lag_1 = groupby_transform item sales (shift 1) daily;
          lag_7 = groupby_transform item sales (shift 7) daily;
          lag_14 = groupby_transform item sales (shift 14) daily;
          lag_28 = groupby_transform item sales (shift 28) daily;
          mean_7 = groupby_transform item sales (\<lambda>x. map np_mean (rolling 7 x)) daily;
          std_7 = groupby_transform item sales (\<lambda>x. map sample_std (rolling 7 x)) daily;
          mean_14 = groupby_transform item sales (\<lambda>x. map np_mean (rolling 14 x)) daily;
          std_14 = groupby_transform item sales (\<lambda>x. map sample_std (rolling 14 x)) daily;
          mean_30 = groupby_transform item sales (\<lambda>x. map np_mean (rolling 30 x)) daily;
          std_30 = groupby_transform item sales (\<lambda>x. map sample_std (rolling 30 x)) daily;
          expanding_mean = groupby_transform item sales (\<lambda>x. map np_mean (expanding x)) daily;
          category = map (\<lambda>r. item_categories (item r)) daily;
          columns = dummy_columns category
      in map (\<lambda>p. mrow.extend (daily ! p)
                  (frow.fields (lag_1 ! p) (lag_7 ! p) (lag_14 ! p) (lag_28 ! p)
                     (mean_7 ! p) (std_7 ! p) (mean_14 ! p) (std_14 ! p)
                     (mean_30 ! p) (std_30 ! p) (expanding_mean ! p) (category ! p)
                     (map (\<lambda>c. (''cat_'' @ c, category ! p = Some c)) columns)))
             [0..<length daily])"

text \<open>\<^verbatim>\<open>dropna()\<close> keeps the rows with no NaN in any column.\<close>

definition complete :: "frow \<Rightarrow> bool" where
  "complete r =
     (temperature_max r \<noteq> None \<and> temperature_min r \<noteq> None \<and> temperature_mean r \<noteq> None \<and>
      precipitation r \<noteq> None \<and> rainfall r \<noteq> None \<and> temp_range r \<noteq> None \<and>
      sales_lag_1 r \<noteq> None \<and> sales_lag_7 r \<noteq> None \<and> sales_lag_14 r \<noteq> None \<and>
      sales_lag_28 r \<noteq> None \<and> sales_rolling_std_7 r \<noteq> None \<and>
      sales_rolling_std_14 r \<noteq> None \<and> sales_rolling_std_30 r \<noteq> None \<and>
      item_category r \<noteq> None)"

text \<open>
  \<^verbatim>\<open>engineer_features\<close>. \<^verbatim>\<open>sort_values(['item', 'date'])\<close> is a stable sort on the
  pair.
\<close>

definition engineer_features ::
  "(int \<Rightarrow> cal) \<Rightarrow> sale list \<Rightarrow> weather_row list \<Rightarrow> int set \<Rightarrow> int set \<Rightarrow> int set \<Rightarrow> int set
   \<Rightarrow> frow list" where
  "engineer_features cal_of df weather_df semester_dates exam_dates holiday_dates vacation_dates =
     (let daily = daily_sales df;
          daily = concat (map (merge_weather cal_of semester_dates exam_dates holiday_dates
                                 vacation_dates weather_df) daily);
          daily = sort_key (\<lambda>r. (item r, date r)) daily;
          daily = group_features daily
      in filter complete daily)"

text \<open>
  The row that \<^const>\<open>group_features\<close> makes of a row \<open>r\<close>, given the sales series
  \<open>S\<close> of its group, its rank \<open>k\<close> in the group and its indicator columns.
\<close>

definition stat_row :: "mrow \<Rightarrow> real list \<Rightarrow> nat \<Rightarrow> (string \<times> bool) list \<Rightarrow> frow" where
  "stat_row r S k dummies =
     mrow.extend r
       (frow.fields (shift 1 S ! k) (shift 7 S ! k) (shift 14 S ! k) (shift 28 S ! k)
          (map np_mean (rolling 7 S) ! k) (map sample_std (rolling 7 S) ! k)
          (map np_mean (rolling 14 S) ! k) (map sample_std (rolling 14 S) ! k)
          (map np_mean (rolling 30 S) ! k) (map sample_std (rolling 30 S) ! k)
          (map np_mean (expanding S) ! k) (item_categories (item r)) dummies)"

text \<open>
  A sales table of 29 days of item 1 and one record of item 77, with the weather of
  those days.
\<close>

definition demo_sales :: "sale list" where
  "demo_sales =
     map (\<lambda>d. \<lparr>s_date = d, s_store = 1, s_item = 1, s_sales = of_int d\<rparr>) [1..29] @
     [\<lparr>s_date = 29, s_store = 2, s_item = 77, s_sales = 5\<rparr>]"

definition demo_weather_row :: "int \<Rightarrow> weather_row" where
  "demo_weather_row d =
     \<lparr>w_date = d, w_temperature_max = Some 30, w_temperature_min = Some 20,
      w_temperature_mean = Some 25, w_precipitation = Some 0, w_rainfall = Some 0\<rparr>"

definition demo_weather :: "weather_row list" where
  "demo_weather = map demo_weather_row [1..29]"

(*DEFS_END*)

section \<open>Properties\<close>

subsection \<open>Rounding\<close>

lemma round_half_even_nonneg: "0 \<le> x \<Longrightarrow> 0 \<le> round_half_even x"
  by (auto simp: round_half_even_def Let_def)

lemma py_round_nonneg: "0 \<le> x \<Longrightarrow> 0 \<le> py_round n x"
  by (simp add: py_round_def round_half_even_nonneg)

lemma round_half_even_of_int: "round_half_even (of_int k) = k"
  by (simp add: round_half_even_def)

lemma py_round_zero: "py_round n 0 = 0"
  using round_half_even_of_int[of 0] by (simp add: py_round_def)

lemma round_half_even_error: "\<bar>of_int (round_half_even x) - x\<bar> \<le> 1 / 2"
  unfolding round_half_even_def Let_def
  by (auto; linarith)

lemma py_round_error: "\<bar>py_round n x - x\<bar> \<le> 1 / (2 * 10 ^ n)"
proof -
  have "py_round n x - x = (of_int (round_half_even (x * 10 ^ n)) - x * 10 ^ n) / 10 ^ n"
    by (simp add: py_round_def field_simps)
  then have "\<bar>py_round n x - x\<bar> = \<bar>of_int (round_half_even (x * 10 ^ n)) - x * 10 ^ n\<bar> / 10 ^ n"
    by simp
  also have "\<dots> \<le> (1 / 2) / 10 ^ n"
    by (rule divide_right_mono[OF round_half_even_error]) simp
  finally show ?thesis by simp
qed

lemma py_round_decimal: "py_round n (of_int k / 10 ^ n) = of_int k / 10 ^ n"
  by (simp add: py_round_def round_half_even_of_int)

subsection \<open>Loops that may raise\<close>

lemma traverse_Inr:
  "traverse f xs = Inr ys \<Longrightarrow> list_all2 (\<lambda>x y. f x = Inr y) xs ys"
  by (induction xs arbitrary: ys) (auto split: sum.splits)

subsection \<open>The three forecast generators\<close>

lemma xgboost_point_nonneg:
  "xgboost_point e model cols r i = Inr p \<Longrightarrow> 0 \<le> predicted_demand p"
  unfolding xgboost_point_def Let_def
  by (cases "traverse (feature_value r (override_date_fields (calendar e (today e + int i)) (p_other r))) cols")
     (auto simp: py_round_nonneg)

lemma generate_xgboost_forecast_nonneg:
  assumes "generate_xgboost_forecast e st days = Inr ps" and "p \<in> set ps"
  shows "0 \<le> predicted_demand p"
proof -
  from assms(1) obtain model cols r where
    "traverse (xgboost_point e model cols r) (py_range days) = Inr ps"
    by (auto simp: generate_xgboost_forecast_def
        split: option.splits artifact.splits list.splits)
  from traverse_Inr[OF this] assms(2) obtain i where "xgboost_point e model cols r i = Inr p"
    by (auto simp: list_all2_conv_all_nth in_set_conv_nth)
  then show ?thesis by (rule xgboost_point_nonneg)
qed

lemma arima_point_nonneg: "0 \<le> snd iv \<Longrightarrow> 0 \<le> predicted_demand (arima_point e iv)"
  by (simp add: arima_point_def Let_def py_round_nonneg)

lemma generate_arima_forecast_nonneg:
  assumes "generate_arima_forecast e st days = Inr ps" and "p \<in> set ps"
  shows "0 \<le> predicted_demand p"
proof -
  from assms(1) obtain raw where
    ps: "ps = map (arima_point e) (enumerate 0 (map (\<lambda>v. max v 0) raw))"
    by (auto simp: generate_arima_forecast_def Let_def
        split: option.splits artifact.splits sum.splits)
  from assms(2) obtain iv where
    iv: "iv \<in> set (enumerate 0 (map (\<lambda>v. max v 0) raw))" and p: "p = arima_point e iv"
    unfolding ps by auto
  obtain i v where ivd: "iv = (i, v)" by (cases iv)
  have "set (map (\<lambda>v. max v 0) raw) = snd ` set (enumerate 0 (map (\<lambda>v. max v 0) raw))"
    by (metis map_snd_enumerate set_map)
  with iv have "v \<in> set (map (\<lambda>v. max v 0) raw)"
    unfolding ivd by force
  then have "0 \<le> snd iv" unfolding ivd by auto
  then show ?thesis unfolding p by (rule arima_point_nonneg)
qed

lemma lstm_point_nonneg: "0 \<le> predicted_demand (lstm_point e sc i y)"
  by (simp add: lstm_point_def Let_def py_round_nonneg)

lemma lstm_loop_step:
  "lstm_loop e model sc (i # is) cur fc = Inr r \<Longrightarrow>
   length (last_n lookback cur) = lookback \<and>
   lstm_loop e model sc is (cur @ [model (last_n lookback cur)])
     (fc @ [lstm_point e sc i (model (last_n lookback cur))]) = Inr r"
  by (simp add: Let_def split: if_splits)

lemma lstm_loop_extends:
  "lstm_loop e model sc is cur fc = Inr (ps, cur') \<Longrightarrow>
   \<exists>ys. cur' = cur @ ys \<and> length ys = length is \<and>
        ps = fc @ map (\<lambda>(i, y). lstm_point e sc i y) (zip is ys)"
proof (induction "is" arbitrary: cur fc)
  case Nil
  then show ?case by simp
next
  case (Cons i "is")
  from lstm_loop_step[OF Cons.prems] have
    "lstm_loop e model sc is (cur @ [model (last_n lookback cur)])
       (fc @ [lstm_point e sc i (model (last_n lookback cur))]) = Inr (ps, cur')"
    by simp
  from Cons.IH[OF this] obtain ys where
    "cur' = (cur @ [model (last_n lookback cur)]) @ ys" "length ys = length is"
    "ps = (fc @ [lstm_point e sc i (model (last_n lookback cur))]) @
          map (\<lambda>(i, y). lstm_point e sc i y) (zip is ys)"
    by blast
  then show ?case
    by (intro exI[of _ "model (last_n lookback cur) # ys"]) simp
qed

lemma lstm_loop_steps:
  "lstm_loop e model sc is cur fc = Inr (ps, cur') \<Longrightarrow> k < length is \<Longrightarrow>
   length (last_n lookback (take (length cur + k) cur')) = lookback \<and>
   cur' ! (length cur + k) = model (last_n lookback (take (length cur + k) cur'))"
proof (induction "is" arbitrary: cur fc k)
  case Nil
  then show ?case by simp
next
  case (Cons i "is")
  define x where "x = model (last_n lookback cur)"
  from lstm_loop_step[OF Cons.prems(1)] have
    len: "length (last_n lookback cur) = lookback" and
    rest: "lstm_loop e model sc is (cur @ [x]) (fc @ [lstm_point e sc i x]) = Inr (ps, cur')"
    by (simp_all add: x_def)
  from lstm_loop_extends[OF rest] obtain ys where cur': "cur' = cur @ x # ys"
    by auto
  show ?case
  proof (cases k)
    case 0
    then show ?thesis
      using len by (simp add: cur' x_def nth_append)
  next
    case (Suc j)
    with Cons.prems(2) have "j < length is" by simp
    from Cons.IH[OF rest this] show ?thesis
      by (simp add: Suc)
  qed
qed

lemma lstm_loop_total:
  "lookback \<le> length cur \<Longrightarrow> \<exists>r. lstm_loop e model sc is cur fc = Inr r"
proof (induction "is" arbitrary: cur fc)
  case Nil
  then show ?case by simp
next
  case (Cons i "is")
  then have "length (last_n lookback cur) = lookback"
    by (simp add: last_n_def)
  moreover have "lookback \<le> length (cur @ [model (last_n lookback cur)])"
    using Cons.prems by simp
  ultimately show ?case
    using Cons.IH by (simp add: Let_def)
qed

lemma generate_lstm_forecast_nonneg:
  assumes "generate_lstm_forecast e st days = Inr ps" and "p \<in> set ps"
  shows "0 \<le> predicted_demand p"
proof -
  from assms(1) obtain cur where "lstm_run e st days = Inr (ps, cur)"
    by (cases "lstm_run e st days") (auto simp: generate_lstm_forecast_def)
  then obtain model sc "is" cur0 where
    "lstm_loop e model sc is cur0 [] = Inr (ps, cur)"
    by (auto simp: lstm_run_def Let_def split: option.splits artifact.splits if_splits)
  from lstm_loop_extends[OF this] obtain ys where
    "ps = map (\<lambda>(i, y). lstm_point e sc i y) (zip is ys)"
    by auto
  with assms(2) show ?thesis
    by (auto simp: lstm_point_nonneg)
qed

text \<open>
  C6. Whatever model is active and whatever the horizon, every forecast point that
  \<open>generate_forecast\<close> returns has a predicted demand of at least 0, also where the
  raw output of the model is negative.
\<close>

theorem forecast_demand_nonneg:
  assumes "generate_forecast e st days = Inr ps" and "p \<in> set ps"
  shows "0 \<le> predicted_demand p"
proof (cases "loaded_model_name st = Some ''XGBoost''")
  case True
  with assms(1) have "generate_xgboost_forecast e st days = Inr ps"
    by (simp add: generate_forecast_def)
  then show ?thesis using assms(2) by (rule generate_xgboost_forecast_nonneg)
next
  case no_xgb: False
  show ?thesis
  proof (cases "loaded_model_name st = Some ''SARIMA''")
    case True
    with assms(1) no_xgb have "generate_arima_forecast e st days = Inr ps"
      by (simp add: generate_forecast_def)
    then show ?thesis using assms(2) by (rule generate_arima_forecast_nonneg)
  next
    case no_arima: False
    show ?thesis
    proof (cases "loaded_model_name st = Some ''LSTM''")
      case True
      with assms(1) no_xgb no_arima have "generate_lstm_forecast e st days = Inr ps"
        by (simp add: generate_forecast_def)
      then show ?thesis using assms(2) by (rule generate_lstm_forecast_nonneg)
    next
      case False
      with assms(1) no_xgb no_arima have "ps = []"
        by (simp add: generate_forecast_def)
      with assms(2) show ?thesis by simp
    qed
  qed
qed

subsection \<open>Example runs\<close>

lemma daily_total_length: "length (daily_total df) = card (p_date ` set df)"
  by (simp add: daily_total_def length_remdups_card_conv)

lemma demo_table_dates: "map p_date demo_table = [1..30]"
  by (simp add: demo_table_def comp_def)

lemma demo_table_length: "length (daily_total demo_table) = 30"
proof -
  have "p_date ` set demo_table = set (map p_date demo_table)" by simp
  also have "\<dots> = {1..30}" unfolding demo_table_dates by simp
  finally show ?thesis by (simp add: daily_total_length)
qed

lemma py_range_2: "py_range 2 = [0, 1]"
  by (simp add: py_range_def upt_rec)

lemma demo_sarima_run:
  "generate_forecast demo_env demo_sarima 2 =
     Inr (map (arima_point demo_env) [(0, 0), (1, 5 / 2)])"
  by (simp add: generate_forecast_def generate_arima_forecast_def demo_sarima_def)

lemma demo_xgboost_run:
  "\<exists>p q. generate_forecast demo_env demo_xgboost 2 = Inr [p, q] \<and> predicted_demand p = 0"
  by (simp add: generate_forecast_def generate_xgboost_forecast_def demo_xgboost_def
      demo_env_def demo_table_def py_range_2 xgboost_point_def feature_value_def
      override_date_fields_def py_round_zero Let_def upto.simps sort_key_def
      split: list.splits)

lemma demo_daily_total: "daily_total demo_table = replicate 30 40"
  by (simp add: daily_total_def demo_table_def upto.simps sort_key_def numeral_eq_Suc)

lemma demo_lstm_run:
  "\<exists>ps. generate_forecast demo_env demo_lstm 2 = Inr ps \<and> length ps = 2"
proof -
  define cur0 where
    "cur0 = map (transform demo_scaler) (last_n lookback (daily_total demo_table))"
  have len0: "lookback \<le> length cur0"
    by (simp add: cur0_def last_n_def demo_table_length lookback_def)
  have run: "lstm_run demo_env demo_lstm 2 =
      lstm_loop demo_env (\<lambda>w. last w / 2 - 1) demo_scaler (py_range 2) cur0 []"
    by (simp add: lstm_run_def demo_lstm_def demo_env_def Let_def cur0_def
        demo_daily_total last_n_def lookback_def)
  from lstm_loop_total[OF len0] obtain ps cur where
    loop: "lstm_loop demo_env (\<lambda>w. last w / 2 - 1) demo_scaler (py_range 2) cur0 [] = Inr (ps, cur)"
    by (metis surj_pair)
  from lstm_loop_extends[OF loop] have "length ps = 2"
    by (auto simp: py_range_2)
  moreover have "loaded_model_name demo_lstm = Some ''LSTM''"
    by (simp add: demo_lstm_def)
  then have "generate_forecast demo_env demo_lstm 2 = Inr ps"
    by (simp add: generate_forecast_def generate_lstm_forecast_def run loop)
  ultimately show ?thesis by blast
qed

theorem forecast_demand_nonneg_witness:
  "(\<exists>ps. generate_forecast demo_env demo_sarima 2 = Inr ps \<and> ps \<noteq> [] \<and>
         0 \<le> predicted_demand (hd ps)) \<and>
   (\<exists>ps. generate_forecast demo_env demo_xgboost 2 = Inr ps \<and> ps \<noteq> [] \<and>
         0 \<le> predicted_demand (hd ps)) \<and>
   (\<exists>ps. generate_forecast demo_env demo_lstm 2 = Inr ps \<and> ps \<noteq> [] \<and>
         0 \<le> predicted_demand (hd ps))"
proof (intro conjI)
  from demo_sarima_run obtain ps where
    r: "generate_forecast demo_env demo_sarima 2 = Inr ps" and n: "ps \<noteq> []"
    by simp
  from forecast_demand_nonneg[OF r, of "hd ps"] n r
  show "\<exists>ps. generate_forecast demo_env demo_sarima 2 = Inr ps \<and> ps \<noteq> [] \<and>
         0 \<le> predicted_demand (hd ps)"
    by simp
next
  from demo_xgboost_run obtain ps where
    r: "generate_forecast demo_env demo_xgboost 2 = Inr ps" and n: "ps \<noteq> []"
    by auto
  from forecast_demand_nonneg[OF r, of "hd ps"] n r
  show "\<exists>ps. generate_forecast demo_env demo_xgboost 2 = Inr ps \<and> ps \<noteq> [] \<and>
         0 \<le> predicted_demand (hd ps)"
    by simp
next
  from demo_lstm_run obtain ps where
    r: "generate_forecast demo_env demo_lstm 2 = Inr ps" and n: "ps \<noteq> []"
    by fastforce
  from forecast_demand_nonneg[OF r, of "hd ps"] n r
  show "\<exists>ps. generate_forecast demo_env demo_lstm 2 = Inr ps \<and> ps \<noteq> [] \<and>
         0 \<le> predicted_demand (hd ps)"
    by simp
qed

subsection \<open>The sequence-model forecast\<close>

lemma last_n_snoc:
  assumes "n \<le> length xs" and "0 < n"
  shows "last_n n (xs @ [y]) = tl (last_n n xs) @ [y]"
proof -
  have "last_n n (xs @ [y]) = drop (Suc (length xs - n)) xs @ [y]"
    using assms by (simp add: last_n_def Suc_diff_le)
  also have "drop (Suc (length xs - n)) xs = tl (drop (length xs - n) xs)"
    by (simp add: drop_Suc tl_drop)
  finally show ?thesis by (simp add: last_n_def)
qed

lemma lstm_run_steps:
  assumes model: "loaded_model st = Some (LSTM_artifact model sc)"
    and table: "processed e = Some df"
    and enough: "lookback \<le> length (daily_total df)"
  shows "\<exists>ps cur. lstm_run e st days = Inr (ps, cur) \<and>
      generate_lstm_forecast e st days = Inr ps \<and>
      length ps = nat days \<and> length cur = lookback + nat days \<and>
      take lookback cur = map (transform sc) (last_n lookback (daily_total df)) \<and>
      (\<forall>k < nat days.
         length (last_n lookback (take (lookback + k) cur)) = lookback \<and>
         cur ! (lookback + k) = model (last_n lookback (take (lookback + k) cur)) \<and>
         last_n lookback (take (lookback + k + 1) cur) =
           tl (last_n lookback (take (lookback + k) cur)) @ [cur ! (lookback + k)] \<and>
         predicted_demand (ps ! k) =
           py_round 1 (max 0 (inverse_transform sc (cur ! (lookback + k)))))"
proof -
  define recent where "recent = last_n lookback (daily_total df)"
  define cur0 where "cur0 = map (transform sc) recent"
  have len0: "length cur0 = lookback"
    using enough by (simp add: cur0_def recent_def last_n_def)
  have "recent \<noteq> []"
    using enough by (auto simp: recent_def last_n_def lookback_def)
  then have run: "lstm_run e st days = lstm_loop e model sc (py_range days) cur0 []"
    by (simp add: lstm_run_def model table Let_def recent_def cur0_def)
  from lstm_loop_total[of cur0 e model sc "py_range days" "[]"] len0
  obtain ps cur where loop: "lstm_loop e model sc (py_range days) cur0 [] = Inr (ps, cur)"
    by (cases "lstm_loop e model sc (py_range days) cur0 []") auto
  from lstm_loop_extends[OF loop] obtain ys where
    cur: "cur = cur0 @ ys" and ys: "length ys = length (py_range days)" and
    ps: "ps = map (\<lambda>(i, y). lstm_point e sc i y) (zip (py_range days) ys)"
    by auto
  have n: "length (py_range days) = nat days"
    by (simp add: py_range_def)
  have lcur: "length cur = lookback + nat days"
    using ys n len0 by (simp add: cur)
  have steps: "length (last_n lookback (take (lookback + k) cur)) = lookback \<and>
         cur ! (lookback + k) = model (last_n lookback (take (lookback + k) cur)) \<and>
         last_n lookback (take (lookback + k + 1) cur) =
           tl (last_n lookback (take (lookback + k) cur)) @ [cur ! (lookback + k)] \<and>
         predicted_demand (ps ! k) =
           py_round 1 (max 0 (inverse_transform sc (cur ! (lookback + k))))"
    if k: "k < nat days" for k
  proof -
    from lstm_loop_steps[OF loop, of k] k n len0 have
      "length (last_n lookback (take (lookback + k) cur)) = lookback"
      "cur ! (lookback + k) = model (last_n lookback (take (lookback + k) cur))"
      by simp_all
    moreover have "ps ! k = lstm_point e sc k (cur ! (lookback + k))"
      using k ys n len0 by (simp add: ps cur py_range_def nth_append)
    moreover have "last_n lookback (take (lookback + k + 1) cur) =
           tl (last_n lookback (take (lookback + k) cur)) @ [cur ! (lookback + k)]"
    proof -
      have "take (lookback + k + 1) cur = take (lookback + k) cur @ [cur ! (lookback + k)]"
        using k lcur by (simp add: take_Suc_conv_app_nth)
      moreover have "lookback \<le> length (take (lookback + k) cur)"
        using k lcur by simp
      moreover have "0 < lookback" by (simp add: lookback_def)
      ultimately show ?thesis by (simp only: last_n_snoc)
    qed
    ultimately show ?thesis
      by (simp add: lstm_point_def Let_def)
  qed
  have gen: "generate_lstm_forecast e st days = Inr ps"
    by (simp add: generate_lstm_forecast_def run loop)
  have lps: "length ps = nat days"
    using ys n by (simp add: ps)
  have seed: "take lookback cur = map (transform sc) (last_n lookback (daily_total df))"
    using len0 by (simp add: cur cur0_def recent_def)
  have "lstm_run e st days = Inr (ps, cur)"
    by (simp add: run loop)
  with gen lps lcur seed steps show ?thesis
    by (intro exI[of _ ps] exI[of _ cur]) simp
qed

lemma lstm_run_short:
  assumes model: "loaded_model st = Some (LSTM_artifact model sc)"
    and table: "processed e = Some df"
    and short: "length (daily_total df) < lookback"
    and days: "1 \<le> days"
  shows "lstm_run e st days = Inl ValueError"
proof -
  have recent: "last_n lookback (daily_total df) = daily_total df"
    using short by (simp add: last_n_def)
  from days obtain js where r: "py_range days = 0 # js"
    by (cases "nat days") (auto simp: py_range_def upt_rec)
  show ?thesis
  proof (cases "daily_total df = []")
    case True
    then show ?thesis
      by (simp add: lstm_run_def model table Let_def last_n_def)
  next
    case False
    have "length (last_n lookback (map (transform sc) (daily_total df))) \<noteq> lookback"
      using short by (simp add: last_n_def)
    then show ?thesis
      using False by (simp add: lstm_run_def model table Let_def recent r)
  qed
qed

lemma demo_lstm_buffer:
  "lstm_run demo_env demo_lstm 2 =
     Inr ([lstm_point demo_env demo_scaler 0 (- (4 / 5)),
           lstm_point demo_env demo_scaler 1 (- (7 / 5))],
          replicate 30 (2 / 5) @ [- (4 / 5), - (7 / 5)])"
  by (simp add: lstm_run_def demo_lstm_def demo_env_def Let_def demo_daily_total
      last_n_def lookback_def py_range_2 demo_scaler_def)

text \<open>
  C4, as stated, fails on the length of the buffer. The list the raw output is appended
  to is never shortened: after a two-day forecast from thirty daily totals it holds 32
  values, not 30. What keeps thirty values is the slice of that list handed to the
  network.
\<close>

theorem lstm_buffer_counterexample:
  "map_sum id snd (lstm_run demo_env demo_lstm 2) =
     Inr (replicate 30 (2 / 5) @ [- (4 / 5), - (7 / 5)]) \<and>
   length (replicate 30 (2 / 5 :: real) @ [- (4 / 5), - (7 / 5)]) = 32 \<and>
   lookback = 30"
  using demo_lstm_buffer by (simp add: lookback_def)

text \<open>
  C4, amended. Let the sequence model be active. If the processed table has at least
  \<open>lookback = 30\<close> distinct dates, a forecast for \<open>days\<close> days runs the loop body
  exactly \<open>days\<close> times: it returns \<open>days\<close> points and appends \<open>days\<close> values to
  the input list, which starts as the scaled last thirty daily totals and so ends with
  \<open>30 + days\<close> values. At step \<open>k\<close> the network is applied to the window of the
  last thirty values of the list as it then stands; the window always has thirty
  values; the value appended is the raw output of the network; the next window is the
  present one without its first value and with that raw output at its end; and the
  reported demand is the raw output mapped back by the scaler, clamped at 0 and
  rounded. If the table has fewer than thirty distinct dates, every forecast for one
  day or more raises ValueError before completing a step.
\<close>

theorem lstm_forecast_window:
  assumes model: "loaded_model st = Some (LSTM_artifact model sc)"
    and table: "processed e = Some df"
  shows "(lookback \<le> length (daily_total df) \<longrightarrow>
     (\<exists>ps cur. lstm_run e st days = Inr (ps, cur) \<and>
        generate_lstm_forecast e st days = Inr ps \<and>
        length ps = nat days \<and> length cur = lookback + nat days \<and>
        take lookback cur = map (transform sc) (last_n lookback (daily_total df)) \<and>
        (\<forall>k < nat days.
           length (last_n lookback (take (lookback + k) cur)) = lookback \<and>
           cur ! (lookback + k) = model (last_n lookback (take (lookback + k) cur)) \<and>
           last_n lookback (take (lookback + k + 1) cur) =
             tl (last_n lookback (take (lookback + k) cur)) @ [cur ! (lookback + k)] \<and>
           predicted_demand (ps ! k) =
             py_round 1 (max 0 (inverse_transform sc (cur ! (lookback + k))))))) \<and>
   (length (daily_total df) < lookback \<and> 1 \<le> days \<longrightarrow>
      generate_lstm_forecast e st days = Inl ValueError)"
proof (intro conjI impI)
  assume "lookback \<le> length (daily_total df)"
  from lstm_run_steps[OF model table this]
  show "\<exists>ps cur. lstm_run e st days = Inr (ps, cur) \<and>
        generate_lstm_forecast e st days = Inr ps \<and>
        length ps = nat days \<and> length cur = lookback + nat days \<and>
        take lookback cur = map (transform sc) (last_n lookback (daily_total df)) \<and>
        (\<forall>k < nat days.
           length (last_n lookback (take (lookback + k) cur)) = lookback \<and>
           cur ! (lookback + k) = model (last_n lookback (take (lookback + k) cur)) \<and>
           last_n lookback (take (lookback + k + 1) cur) =
             tl (last_n lookback (take (lookback + k) cur)) @ [cur ! (lookback + k)] \<and>
           predicted_demand (ps ! k) =
             py_round 1 (max 0 (inverse_transform sc (cur ! (lookback + k)))))" .
next
  assume "length (daily_total df) < lookback \<and> 1 \<le> days"
  then have "lstm_run e st days = Inl ValueError"
    using lstm_run_short[OF model table] by simp
  then show "generate_lstm_forecast e st days = Inl ValueError"
    by (simp add: generate_lstm_forecast_def)
qed

theorem lstm_forecast_window_witness:
  "(\<exists>ps cur. lstm_run demo_env demo_lstm 2 = Inr (ps, cur) \<and>
     length ps = 2 \<and> length cur = 32 \<and>
     cur ! 30 = - (4 / 5) \<and> cur ! 31 = - (7 / 5) \<and>
     last_n lookback (take 31 cur) = tl (last_n lookback (take 30 cur)) @ [- (4 / 5)] \<and>
     predicted_demand (ps ! 0) = 0 \<and> predicted_demand (ps ! 1) = 0) \<and>
   generate_lstm_forecast demo_short_env demo_lstm 1 = Inl ValueError"
proof -
  have m: "loaded_model demo_lstm = Some (LSTM_artifact (\<lambda>w. last w / 2 - 1) demo_scaler)"
    by (simp add: demo_lstm_def)
  have t: "processed demo_env = Some demo_table"
    by (simp add: demo_env_def)
  have l: "lookback \<le> length (daily_total demo_table)"
    by (simp add: demo_table_length lookback_def)
  have t': "processed demo_short_env =
      Some [\<lparr>p_date = 1, p_sales = 40, p_other = Map.empty\<rparr>]"
    by (simp add: demo_short_env_def)
  have l': "length (daily_total [\<lparr>p_date = 1, p_sales = 40, p_other = Map.empty\<rparr>]) < lookback
      \<and> 1 \<le> (1::int)"
    by (simp add: daily_total_def lookback_def)
  from lstm_forecast_window[OF m t', of 1] l'
  have short: "generate_lstm_forecast demo_short_env demo_lstm 1 = Inl ValueError"
    by blast
  from lstm_forecast_window[OF m t, of 2] l obtain ps cur where
    run: "lstm_run demo_env demo_lstm 2 = Inr (ps, cur)" and
    lps: "length ps = 2" and lcur: "length cur = lookback + 2" and
    seed: "take lookback cur = map (transform demo_scaler) (last_n lookback (daily_total demo_table))" and
    steps: "\<And>k. k < 2 \<Longrightarrow>
         length (last_n lookback (take (lookback + k) cur)) = lookback \<and>
         cur ! (lookback + k) = last (last_n lookback (take (lookback + k) cur)) / 2 - 1 \<and>
         last_n lookback (take (lookback + k + 1) cur) =
             tl (last_n lookback (take (lookback + k) cur)) @ [cur ! (lookback + k)] \<and>
         predicted_demand (ps ! k) =
           py_round 1 (max 0 (inverse_transform demo_scaler (cur ! (lookback + k))))"
    by auto
  have L: "lookback = 30" by (simp add: lookback_def)
  have seed30: "take 30 cur = replicate 30 (2 / 5)"
    using seed by (simp add: L demo_daily_total last_n_def demo_scaler_def)
  have w0: "last (last_n lookback (take (lookback + 0) cur)) = 2 / 5"
    using lcur by (simp add: L last_n_def seed30)
  from steps[of 0] w0 have c30: "cur ! 30 = - (4 / 5)"
    by (simp add: L)
  have w1: "last (last_n lookback (take (lookback + 1) cur)) = cur ! 30"
    using lcur by (simp add: L last_n_def last_drop last_conv_nth min_def)
  from steps[of 1] w1 c30 have c31: "cur ! 31 = - (7 / 5)"
    by (simp add: L)
  from steps[of 0] c30 have sl:
    "last_n lookback (take 31 cur) = tl (last_n lookback (take 30 cur)) @ [- (4 / 5)]"
    by (simp add: L)
  have p0: "predicted_demand (ps ! 0) = 0"
    using steps[of 0] c30 by (simp add: L demo_scaler_def py_round_zero)
  have p1: "predicted_demand (ps ! 1) = 0"
    using steps[of 1] c31 by (simp add: L demo_scaler_def py_round_zero)
  from run lps lcur c30 c31 sl p0 p1 have
    "\<exists>ps cur. lstm_run demo_env demo_lstm 2 = Inr (ps, cur) \<and>
     length ps = 2 \<and> length cur = 32 \<and>
     cur ! 30 = - (4 / 5) \<and> cur ! 31 = - (7 / 5) \<and>
     last_n lookback (take 31 cur) = tl (last_n lookback (take 30 cur)) @ [- (4 / 5)] \<and>
     predicted_demand (ps ! 0) = 0 \<and> predicted_demand (ps ! 1) = 0"
    by (intro exI[of _ ps] exI[of _ cur]) (simp add: L)
  with short show ?thesis by (rule conjI[rotated])
qed

subsection \<open>Serving with no model\<close>

text \<open>
  C9. With no model loaded, \<open>generate_forecast\<close> returns the empty list instead of
  raising (it does so whenever the model name is none of the three it knows), and each
  of the three forecast routes answers with status 503 and an error message, not with a
  200 answer carrying an empty forecast.
\<close>

theorem no_model_unavailable:
  "(loaded_model_name st \<notin> {Some ''XGBoost'', Some ''SARIMA'', Some ''LSTM''} \<longrightarrow>
      generate_forecast e st days = Inr []) \<and>
   (loaded_model st = None \<longrightarrow>
      daily_forecast e st arg =
        \<lparr>status = 503, payload = Error_message ''No model loaded. Run train.py first.''\<rparr> \<and>
      weekly_forecast e st arg =
        \<lparr>status = 503, payload = Error_message ''No model loaded. Run train.py first.''\<rparr> \<and>
      monthly_forecast e st arg =
        \<lparr>status = 503, payload = Error_message ''No model loaded. Run train.py first.''\<rparr>)"
  by (simp add: generate_forecast_def daily_forecast_def weekly_forecast_def
      monthly_forecast_def)

theorem no_model_unavailable_witness:
  "generate_forecast demo_env demo_idle 7 = Inr [] \<and>
   status (daily_forecast demo_env demo_idle Absent) = 503 \<and>
   status (weekly_forecast demo_env demo_idle (Int_text 2)) = 503 \<and>
   status (monthly_forecast demo_env demo_idle Absent) = 503"
  using no_model_unavailable[of demo_idle demo_env 7 Absent]
    no_model_unavailable[of demo_idle demo_env 7 "Int_text 2"]
  by (simp add: demo_idle_def)

subsection \<open>Aggregation into blocks\<close>

lemma slice_block: "slice (w * b) ((w + 1) * b) xs = take b (drop (w * b) xs)"
  by (simp add: slice_def)

lemma slice_block_empty:
  "0 < b \<Longrightarrow> slice (w * b) ((w + 1) * b) xs = [] \<longleftrightarrow> length xs \<le> w * b"
  unfolding slice_block by auto

lemma concat_blocks:
  "concat (map (\<lambda>w. slice (w * b) ((w + 1) * b) xs) [0..<m]) = take (m * b) xs"
proof (induction m)
  case 0
  then show ?case by simp
next
  case (Suc m)
  have "take (m * b) xs @ take b (drop (m * b) xs) = take (m * b + b) xs"
    by (simp add: take_add)
  with Suc show ?case
    unfolding slice_block by (simp add: add.commute)
qed

lemma filter_downward:
  assumes "\<And>i j. i \<le> j \<Longrightarrow> P j \<Longrightarrow> P i"
  shows "filter P [0..<n] = [0..<length (filter P [0..<n])]"
proof (induction n)
  case 0
  then show ?case by simp
next
  case (Suc n)
  show ?case
  proof (cases "P n")
    case True
    have "P i" if "i < n" for i
      using assms[of i n] that True by simp
    then have "filter P [0..<n] = [0..<n]" by simp
    with True show ?thesis by simp
  next
    case False
    with Suc show ?thesis by simp
  qed
qed

lemma concat_map_if:
  "concat (map (\<lambda>w. if P w then [f w] else []) ws) = map f (filter P ws)"
  by (induction ws) simp_all

lemma aggregate_filter:
  "aggregate block lo hi periods ps =
     map (period_of block lo hi ps)
       (filter (\<lambda>w. slice (w * block) ((w + 1) * block) ps \<noteq> []) (py_range periods))"
  unfolding aggregate_def period_of_def Let_def
  by (rule concat_map_if)

lemma aggregate_prefix:
  assumes "0 < block"
  shows "aggregate block lo hi periods ps =
     map (period_of block lo hi ps) [0..<length (aggregate block lo hi periods ps)]"
proof -
  let ?P = "\<lambda>w. slice (w * block) ((w + 1) * block) ps \<noteq> []"
  have down: "?P i" if "i \<le> j" "?P j" for i j
  proof -
    from that(2) have "j * block < length ps"
      unfolding slice_block_empty[OF assms] by simp
    moreover from that(1) have "i * block \<le> j * block" by (rule mult_le_mono1)
    ultimately have "i * block < length ps" by (rule le_less_trans[rotated])
    then show ?thesis
      unfolding slice_block_empty[OF assms] by simp
  qed
  have "filter ?P [0..<nat periods] = [0..<length (filter ?P [0..<nat periods])]"
    by (rule filter_downward) (rule down)
  then show ?thesis
    by (simp add: aggregate_filter py_range_def)
qed


lemma sum_list_abs_diff:
  assumes "\<And>x. \<bar>f x - g x\<bar> \<le> (c::real)"
  shows "\<bar>sum_list (map f xs) - sum_list (map g xs)\<bar> \<le> of_nat (length xs) * c"
proof (induction xs)
  case Nil
  then show ?case by simp
next
  case (Cons x xs)
  have "\<bar>sum_list (map f (x # xs)) - sum_list (map g (x # xs))\<bar>
      \<le> \<bar>f x - g x\<bar> + \<bar>sum_list (map f xs) - sum_list (map g xs)\<bar>"
    by simp
  also have "\<dots> \<le> c + of_nat (length xs) * c"
    by (rule add_mono[OF assms Cons.IH])
  finally show ?case by (simp add: algebra_simps)
qed

lemma nonempty_blocks_prefix:
  assumes "0 < block"
  shows "filter (\<lambda>w. slice (w * block) ((w + 1) * block) ps \<noteq> []) [0..<n] =
     [0..<length (filter (\<lambda>w. slice (w * block) ((w + 1) * block) ps \<noteq> []) [0..<n])]"
proof (rule filter_downward)
  fix i j :: nat
  assume "i \<le> j" and "slice (j * block) ((j + 1) * block) ps \<noteq> []"
  then have "j * block < length ps"
    unfolding slice_block_empty[OF assms] by simp
  moreover from \<open>i \<le> j\<close> have "i * block \<le> j * block" by (rule mult_le_mono1)
  ultimately have "i * block < length ps" by (rule le_less_trans[rotated])
  then show "slice (i * block) ((i + 1) * block) ps \<noteq> []"
    unfolding slice_block_empty[OF assms] by simp
qed

lemma aggregate_covers:
  assumes "0 < block" and "length ps \<le> nat periods * block"
  shows "length ps \<le> length (aggregate block lo hi periods ps) * block"
proof -
  let ?P = "\<lambda>w. slice (w * block) ((w + 1) * block) ps \<noteq> []"
  let ?m = "length (aggregate block lo hi periods ps)"
  have m: "?m = length (filter ?P [0..<nat periods])"
    by (simp add: aggregate_filter py_range_def)
  have pre: "filter ?P [0..<nat periods] = [0..<?m]"
    using nonempty_blocks_prefix[OF assms(1), of ps "nat periods"] m by simp
  show ?thesis
  proof (cases "?m < nat periods")
    case True
    then have "?m \<in> set [0..<nat periods]" by simp
    moreover have "?m \<notin> set [0..<?m]" by simp
    ultimately have "\<not> ?P ?m"
      using pre by (metis (mono_tags, lifting) mem_Collect_eq set_filter)
    then show ?thesis
      unfolding slice_block_empty[OF assms(1)] by simp
  next
    case False
    moreover have "?m \<le> nat periods"
      unfolding m using length_filter_le[of ?P "[0..<nat periods]"] by simp
    ultimately have "?m = nat periods" by simp
    with assms(2) show ?thesis by simp
  qed
qed

lemma aggregate_totals:
  assumes "0 < block"
  shows "map total_predicted_demand (aggregate block lo hi periods ps) =
     map (\<lambda>w. py_round 1 (sum_list (map predicted_demand (slice (w * block) ((w + 1) * block) ps))))
       [0..<length (aggregate block lo hi periods ps)]"
proof -
  have "map total_predicted_demand (aggregate block lo hi periods ps) =
      map total_predicted_demand
        (map (period_of block lo hi ps) [0..<length (aggregate block lo hi periods ps)])"
    using aggregate_prefix[OF assms, of lo hi periods ps] by simp
  then show ?thesis
    by (simp add: period_of_def Let_def comp_def)
qed

lemma sum_list_map_concat:
  "sum_list (map f (concat xss)) = sum_list (map (\<lambda>xs. sum_list (map f xs)) xss)"
  by (induction xss) simp_all

lemma points_by_block:
  assumes "0 < block" and "length ps \<le> nat periods * block"
  shows "sum_list (map predicted_demand ps) =
     sum_list (map (\<lambda>w. sum_list (map predicted_demand (slice (w * block) ((w + 1) * block) ps)))
       [0..<length (aggregate block lo hi periods ps)])"
proof -
  define m where "m = length (aggregate block lo hi periods ps)"
  define blocks where "blocks = map (\<lambda>w. slice (w * block) ((w + 1) * block) ps) [0..<m]"
  have "take (m * block) ps = ps"
    using aggregate_covers[OF assms, of lo hi] by (simp add: m_def)
  with concat_blocks[of block ps m] have "concat blocks = ps"
    by (simp add: blocks_def)
  then have "sum_list (map predicted_demand ps) = sum_list (map predicted_demand (concat blocks))"
    by simp
  also have "\<dots> = sum_list (map (\<lambda>xs. sum_list (map predicted_demand xs)) blocks)"
    by (rule sum_list_map_concat)
  also have "\<dots> = sum_list (map (\<lambda>w. sum_list (map predicted_demand
      (slice (w * block) ((w + 1) * block) ps))) [0..<m])"
    unfolding blocks_def map_map comp_def ..
  finally show ?thesis unfolding m_def .
qed

lemma decimal_sum:
  assumes "\<forall>x \<in> set xs. \<exists>k::int. f x = of_int k / 10"
  shows "\<exists>k::int. sum_list (map f xs) = of_int k / (10::real)"
  using assms
proof (induction xs)
  case Nil
  show ?case by (rule exI[of _ 0]) simp
next
  case (Cons x xs)
  then obtain a b :: int where "f x = of_int a / 10" "sum_list (map f xs) = of_int b / 10"
    by auto
  then have "sum_list (map f (x # xs)) = of_int (a + b) / 10"
    by (simp add: add_divide_distrib)
  then show ?case by blast
qed

subsection \<open>Aggregation keeps the total\<close>

text \<open>
  C5. For a block size \<open>block > 0\<close> (7 for weeks, 30 for months) and a list of points
  that the \<open>periods\<close> blocks cover, as the list the routes pass always is, the totals of
  the aggregated periods add up to the sum of the points' predicted demands within the
  rounding of the totals: half a unit of the first decimal for each period. When the
  predicted demands are themselves numbers with one decimal, as the rounded values the
  generators emit are, the two sums are equal.
\<close>

theorem aggregate_total_preserved:
  assumes "0 < block" and "length ps \<le> nat periods * block"
  shows "\<bar>sum_list (map total_predicted_demand (aggregate block lo hi periods ps)) -
           sum_list (map predicted_demand ps)\<bar>
         \<le> of_nat (length (aggregate block lo hi periods ps)) / 20 \<and>
       ((\<forall>p \<in> set ps. \<exists>k::int. predicted_demand p = of_int k / 10) \<longrightarrow>
          sum_list (map total_predicted_demand (aggregate block lo hi periods ps)) =
          sum_list (map predicted_demand ps))"
proof
  define m where "m = length (aggregate block lo hi periods ps)"
  define T where
    "T = (\<lambda>w. sum_list (map predicted_demand (slice (w * block) ((w + 1) * block) ps)))"
  have totals: "sum_list (map total_predicted_demand (aggregate block lo hi periods ps)) =
      sum_list (map (\<lambda>w. py_round 1 (T w)) [0..<m])"
    unfolding aggregate_totals[OF assms(1)] T_def m_def ..
  have points: "sum_list (map predicted_demand ps) = sum_list (map T [0..<m])"
    unfolding T_def m_def by (rule points_by_block[OF assms])
  have "\<bar>sum_list (map (\<lambda>w. py_round 1 (T w)) [0..<m]) - sum_list (map T [0..<m])\<bar>
      \<le> of_nat (length [0..<m]) * (1 / 20)"
  proof (rule sum_list_abs_diff)
    fix w
    show "\<bar>py_round 1 (T w) - T w\<bar> \<le> 1 / 20"
      using py_round_error[of 1 "T w"] by simp
  qed
  then show "\<bar>sum_list (map total_predicted_demand (aggregate block lo hi periods ps)) -
           sum_list (map predicted_demand ps)\<bar>
         \<le> of_nat (length (aggregate block lo hi periods ps)) / 20"
    unfolding totals points by (simp add: m_def)
  show "(\<forall>p \<in> set ps. \<exists>k::int. predicted_demand p = of_int k / 10) \<longrightarrow>
          sum_list (map total_predicted_demand (aggregate block lo hi periods ps)) =
          sum_list (map predicted_demand ps)"
  proof
    assume dec: "\<forall>p \<in> set ps. \<exists>k::int. predicted_demand p = of_int k / 10"
    have "py_round 1 (T w) = T w" for w
    proof -
      have "\<forall>p \<in> set (slice (w * block) ((w + 1) * block) ps).
          \<exists>k::int. predicted_demand p = of_int k / 10"
        using dec by (auto simp: slice_def dest: in_set_takeD in_set_dropD)
      from decimal_sum[OF this] obtain k :: int where k: "T w = of_int k / 10 ^ 1"
        unfolding T_def by auto
      show ?thesis
        unfolding k by (rule py_round_decimal)
    qed
    then show "sum_list (map total_predicted_demand (aggregate block lo hi periods ps)) =
          sum_list (map predicted_demand ps)"
      unfolding totals points by simp
  qed
qed




theorem aggregate_total_preserved_witness:
  "sum_list (map total_predicted_demand (weekly_data 2 demo_points)) =
     sum_list (map predicted_demand demo_points) \<and>
   \<bar>sum_list (map total_predicted_demand (weekly_data 2 demo_points)) -
     sum_list (map predicted_demand demo_points)\<bar>
     \<le> of_nat (length (weekly_data 2 demo_points)) / 20"
proof -
  have b: "0 < (7::nat)" by simp
  have l: "length demo_points \<le> nat 2 * 7" by (simp add: demo_points_def)
  have d: "\<forall>p \<in> set demo_points. \<exists>k::int. predicted_demand p = of_int k / 10"
  proof
    fix p
    assume "p \<in> set demo_points"
    then obtain i :: nat where "p = \<lparr>fp_date = ''2026-01'', day_name = ''day'',
               predicted_demand = of_int (int i + 10) / 10,
               confidence_lower = 0, confidence_upper = 0\<rparr>"
      unfolding demo_points_def by auto
    then have "predicted_demand p = of_int (int i + 10) / 10" by simp
    then show "\<exists>k::int. predicted_demand p = of_int k / 10" by (rule exI)
  qed
  from aggregate_total_preserved[OF b l, of "0.85" "1.15"] d show ?thesis
    by (simp add: weekly_data_def)
qed




subsection \<open>Metrics\<close>

lemma np_mean_zeros: "np_mean (map (\<lambda>x. 0) xs) = 0"
  by (simp add: np_mean_def)

lemma bool_index_pairs:
  "length xs = length ys \<Longrightarrow>
   zip (bool_index xs (map P xs)) (bool_index ys (map P xs)) =
     filter (\<lambda>(t, p). P t) (zip xs ys)"
  by (induction xs ys rule: list_induct2) (simp_all add: bool_index_def)

lemma bool_index_filter: "bool_index xs (map P xs) = filter P xs"
  by (induction xs) (simp_all add: bool_index_def)

lemma mask_count: "length (filter id (map P xs)) = length (filter P xs)"
  by (induction xs) simp_all

lemma positive_pairs_empty:
  "length xs = length ys \<Longrightarrow>
   (filter (\<lambda>(t, p). P t) (zip xs ys) = []) = (filter P xs = [])"
  by (induction xs ys rule: list_induct2) simp_all

lemma map2_as_zip: "map2 f xs ys = map (\<lambda>(x, y). f x y) (zip xs ys)"
  by simp

lemma mape_by_pairs:
  assumes "length y_true = length y_pred"
  shows "map abs (map2 (/)
           (map2 (-) (bool_index y_true (map P y_true)) (bool_index y_pred (map P y_true)))
           (bool_index y_true (map P y_true))) =
         map (\<lambda>(t, p). \<bar>(t - p) / t\<bar>) (filter (\<lambda>(t, p). P t) (zip y_true y_pred))"
  using assms by (induction y_true y_pred rule: list_induct2) (simp_all add: bool_index_def)

lemma compute_metrics_same:
  assumes "y \<noteq> []"
  shows "compute_metrics y y = Inr \<lparr>rmse = 0, mae = 0, mape = 0\<rparr>"
proof -
  have z: "zip y y = map (\<lambda>x. (x, x)) y" by (simp add: zip_same_conv_map)
  have mse: "mean_squared_error y y = Inr 0"
    using assms by (simp add: mean_squared_error_def z comp_def np_mean_def)
  have mae: "mean_absolute_error y y = Inr 0"
    using assms by (simp add: mean_absolute_error_def z comp_def np_mean_def)
  have "map abs (map2 (/)
           (map2 (-) (bool_index y (map (\<lambda>t. t > 0) y)) (bool_index y (map (\<lambda>t. t > 0) y)))
           (bool_index y (map (\<lambda>t. t > 0) y))) =
        map (\<lambda>(t, p). \<bar>(t - p) / t\<bar>) (filter (\<lambda>(t, p). 0 < t) (zip y y))"
    by (rule mape_by_pairs) simp
  also have "\<dots> = map (\<lambda>x. 0) (filter (\<lambda>t. 0 < t) y)"
    by (simp add: z filter_map comp_def)
  finally have "np_mean (map abs (map2 (/)
           (map2 (-) (bool_index y (map (\<lambda>t. t > 0) y)) (bool_index y (map (\<lambda>t. t > 0) y)))
           (bool_index y (map (\<lambda>t. t > 0) y)))) = 0"
    by (simp only: np_mean_zeros)
  then show ?thesis
    by (simp add: compute_metrics_def mse mae Let_def py_round_zero del: map_map zip_map_fst_snd)
qed

lemma compute_metrics_mape:
  assumes "length y_true = length y_pred" and "y_true \<noteq> []"
  shows "\<exists>m. compute_metrics y_true y_pred = Inr m \<and>
     mape m = py_round 2
       (if filter (\<lambda>(t, p). 0 < t) (zip y_true y_pred) = [] then 0
        else np_mean (map (\<lambda>(t, p). \<bar>(t - p) / t\<bar>)
               (filter (\<lambda>(t, p). 0 < t) (zip y_true y_pred))) * 100)"
proof -
  obtain mse where mse: "mean_squared_error y_true y_pred = Inr mse"
    using assms by (simp add: mean_squared_error_def)
  obtain a where mae: "mean_absolute_error y_true y_pred = Inr a"
    using assms by (simp add: mean_absolute_error_def)
  have e: "(filter (\<lambda>(t, p). 0 < t) (zip y_true y_pred) = []) =
      (\<not> 0 < length (filter id (map (\<lambda>t. 0 < t) y_true)))"
    using positive_pairs_empty[OF assms(1), of "\<lambda>t. 0 < t"] by (simp add: mask_count)
  show ?thesis
    unfolding compute_metrics_def mse mae Let_def e mape_by_pairs[OF assms(1), symmetric]
    by simp
qed

text \<open>
  C8. Applied to twice the same non-empty vector, \<^verbatim>\<open>compute_metrics\<close> returns
  rmse = mae = mape = 0 (whether or not the vector has a positive value). For any two
  vectors of the same positive length it returns, and its mape is the rounding to two
  decimals of the mean of \<open>|(t - p) / t|\<close>, times 100, over the positions whose actual
  value \<open>t\<close> is positive, and of 0 when there is no such position.
\<close>

theorem compute_metrics_contract:
  "(y \<noteq> [] \<longrightarrow> compute_metrics y y = Inr \<lparr>rmse = 0, mae = 0, mape = 0\<rparr>) \<and>
   (length y_true = length y_pred \<and> y_true \<noteq> [] \<longrightarrow>
      (\<exists>m. compute_metrics y_true y_pred = Inr m \<and>
         mape m = py_round 2
           (if filter (\<lambda>(t, p). 0 < t) (zip y_true y_pred) = [] then 0
            else np_mean (map (\<lambda>(t, p). \<bar>(t - p) / t\<bar>)
                   (filter (\<lambda>(t, p). 0 < t) (zip y_true y_pred))) * 100)))"
  using compute_metrics_same[of y] compute_metrics_mape[of y_true y_pred] by blast

lemma py_round_2_examples: "py_round 2 25 = 25" "py_round 2 0 = 0"
  by (simp_all add: py_round_def round_half_even_def Let_def)

theorem compute_metrics_contract_witness:
  "compute_metrics [2, 0] [2, 0] = Inr \<lparr>rmse = 0, mae = 0, mape = 0\<rparr> \<and>
   (\<exists>m. compute_metrics [0, 4] [7, 5] = Inr m \<and> mape m = 25) \<and>
   (\<exists>m. compute_metrics [0, - 1] [3, 2] = Inr m \<and> mape m = 0)"
proof -
  from compute_metrics_contract[of "[2, 0]" "[0, 4]" "[7, 5]"]
  have a: "compute_metrics [2, 0] [2, 0] = Inr \<lparr>rmse = 0, mae = 0, mape = 0\<rparr>"
    and b: "\<exists>m. compute_metrics [0, 4] [7, 5] = Inr m \<and> mape m = 25"
    by (simp_all add: np_mean_def py_round_2_examples)
  from compute_metrics_contract[of "[2, 0]" "[0, - 1]" "[3, 2]"]
  have c: "\<exists>m. compute_metrics [0, - 1] [3, 2] = Inr m \<and> mape m = 0"
    by (simp add: py_round_2_examples)
  from a b c show ?thesis by blast
qed

subsection \<open>Model selection\<close>

lemma py_min_key_first_min:
  "first_min f pre i \<Longrightarrow> b = pre ! i \<Longrightarrow>
   \<exists>k. first_min f (pre @ xs) k \<and> py_min_key f b xs = (pre @ xs) ! k"
proof (induction xs arbitrary: b pre i)
  case Nil
  then show ?case by auto
next
  case (Cons x xs)
  show ?case
  proof (cases "f x < f b")
    case True
    have "first_min f (pre @ [x]) (length pre)"
      using Cons.prems True
      by (auto simp: first_min_def list_all_iff nth_append)
    from Cons.IH[OF this, of x] True show ?thesis by (auto simp: nth_append)
  next
    case False
    have "first_min f (pre @ [x]) i"
      using Cons.prems False
      by (auto simp: first_min_def list_all_iff nth_append)
    moreover have "b = (pre @ [x]) ! i"
      using Cons.prems by (simp add: first_min_def nth_append)
    ultimately show ?thesis
      using Cons.IH[of "pre @ [x]" i b] False by auto
  qed
qed

lemma py_min_key_hd:
  assumes "ys \<noteq> []"
  shows "\<exists>k. first_min f ys k \<and> py_min_key f (hd ys) (tl ys) = ys ! k"
proof -
  from assms obtain y ys' where ys: "ys = y # ys'" by (cases ys) auto
  have "first_min f [y] 0" by (simp add: first_min_def)
  from py_min_key_first_min[OF this, of y ys'] show ?thesis by (simp add: ys)
qed

lemma valid_empty:
  "(map the (filter (\<lambda>r. r \<noteq> None) results) = []) = (\<forall>r \<in> set results. r = None)"
  by (auto simp: filter_empty_conv)

text \<open>
  C3. \<^verbatim>\<open>select_best_model\<close> raises its ValueError exactly when every trainer result
  is \<^verbatim>\<open>None\<close>. Otherwise, the comparison file being writable, it returns a non-null
  candidate whose rmse is lowest among the non-null candidates, and of those with that
  rmse the first in the order of the list (every earlier candidate has a strictly
  larger rmse); the comparison names it as best model. For candidates with rmse 5, rmse
  3 and a null it returns the second.
\<close>

theorem select_best_model_lowest_rmse:
  "(select_best_model now writable results = Inl ValueError \<longleftrightarrow>
      (\<forall>r \<in> set results. r = None)) \<and>
   (writable \<and> (\<exists>r \<in> set results. r \<noteq> None) \<longrightarrow>
     (\<exists>best cmp i. select_best_model now writable results = Inr (best, cmp) \<and>
        i < length (map the (filter (\<lambda>r. r \<noteq> None) results)) \<and>
        best = map the (filter (\<lambda>r. r \<noteq> None) results) ! i \<and>
        (\<forall>j < length (map the (filter (\<lambda>r. r \<noteq> None) results)).
           rmse (tr_metrics best) \<le>
             rmse (tr_metrics (map the (filter (\<lambda>r. r \<noteq> None) results) ! j))) \<and>
        (\<forall>j < i.
           rmse (tr_metrics best) <
             rmse (tr_metrics (map the (filter (\<lambda>r. r \<noteq> None) results) ! j))) \<and>
        best_model cmp = tr_name best)) \<and>
   (rmse (tr_metrics a) = 5 \<and> rmse (tr_metrics b) = 3 \<longrightarrow>
      map_sum id fst (select_best_model now True [Some a, Some b, None]) = Inr b)"
proof (intro conjI impI)
  define valid where "valid = map the (filter (\<lambda>r. r \<noteq> None) results)"
  show "select_best_model now writable results = Inl ValueError \<longleftrightarrow>
      (\<forall>r \<in> set results. r = None)"
    using valid_empty[of results]
    by (simp add: select_best_model_def Let_def)
next
  define valid where "valid = map the (filter (\<lambda>r. r \<noteq> None) results)"
  assume h: "writable \<and> (\<exists>r \<in> set results. r \<noteq> None)"
  then have ne: "valid \<noteq> []"
    using valid_empty[of results] by (simp add: valid_def)
  from py_min_key_hd[OF ne, of "\<lambda>x. rmse (tr_metrics x)"] obtain k where
    fm: "first_min (\<lambda>x. rmse (tr_metrics x)) valid k" and
    best: "py_min_key (\<lambda>x. rmse (tr_metrics x)) (hd valid) (tl valid) = valid ! k"
    by blast
  define cmp where "cmp = \<lparr>best_model = tr_name (valid ! k), trained_at = now,
      models = fold (\<lambda>r. dict_set (tr_name r) (tr_metrics r)) valid []\<rparr>"
  have run: "select_best_model now writable results = Inr (valid ! k, cmp)"
    unfolding select_best_model_def Let_def valid_def[symmetric] best cmp_def
    using h ne by simp
  have k: "k < length valid" using fm by (simp add: first_min_def)
  have low: "\<forall>j < length valid.
      rmse (tr_metrics (valid ! k)) \<le> rmse (tr_metrics (valid ! j))"
    using fm by (simp add: first_min_def list_all_length)
  have first: "\<forall>j < k. rmse (tr_metrics (valid ! k)) < rmse (tr_metrics (valid ! j))"
    using fm by (simp add: first_min_def list_all_length)
  have nm: "best_model cmp = tr_name (valid ! k)" by (simp add: cmp_def)
  from run k low first nm
  show "\<exists>best cmp i. select_best_model now writable results = Inr (best, cmp) \<and>
        i < length (map the (filter (\<lambda>r. r \<noteq> None) results)) \<and>
        best = map the (filter (\<lambda>r. r \<noteq> None) results) ! i \<and>
        (\<forall>j < length (map the (filter (\<lambda>r. r \<noteq> None) results)).
           rmse (tr_metrics best) \<le>
             rmse (tr_metrics (map the (filter (\<lambda>r. r \<noteq> None) results) ! j))) \<and>
        (\<forall>j < i.
           rmse (tr_metrics best) <
             rmse (tr_metrics (map the (filter (\<lambda>r. r \<noteq> None) results) ! j))) \<and>
        best_model cmp = tr_name best"
    unfolding valid_def[symmetric]
    by (intro exI[of _ "valid ! k"] exI[of _ cmp] exI[of _ k]) simp
next
  assume "rmse (tr_metrics a) = 5 \<and> rmse (tr_metrics b) = 3"
  then show "map_sum id fst (select_best_model now True [Some a, Some b, None]) = Inr b"
    by (simp add: select_best_model_def Let_def)
qed

theorem select_best_model_lowest_rmse_witness:
  "select_best_model ''now'' True [None, None, None] = Inl ValueError \<and>
   map_sum id fst (select_best_model ''now'' True
     [Some (demo_result ''SARIMA'' 3), None, Some (demo_result ''LSTM'' 3)]) =
     Inr (demo_result ''SARIMA'' 3) \<and>
   map_sum id fst (select_best_model ''now'' True
     [Some (demo_result ''A'' 5), Some (demo_result ''B'' 3), None]) =
     Inr (demo_result ''B'' 3)"
proof (intro conjI)
  from select_best_model_lowest_rmse[of "''now''" True "[None, None, None]"]
  show "select_best_model ''now'' True [None, None, None] = Inl ValueError"
    by simp
next
  let ?rs = "[Some (demo_result ''SARIMA'' 3), None, Some (demo_result ''LSTM'' 3)]"
  have v: "map the (filter (\<lambda>r. r \<noteq> None) ?rs) =
      [demo_result ''SARIMA'' 3, demo_result ''LSTM'' 3]"
    by simp
  have "True \<and> (\<exists>r \<in> set ?rs. r \<noteq> None)" by simp
  with select_best_model_lowest_rmse[of "''now''" True ?rs] obtain best cmp i where
    run: "select_best_model ''now'' True ?rs = Inr (best, cmp)" and
    i: "i < length [demo_result ''SARIMA'' 3, demo_result ''LSTM'' 3]" and
    best: "best = [demo_result ''SARIMA'' 3, demo_result ''LSTM'' 3] ! i" and
    first: "\<forall>j < i. rmse (tr_metrics best) <
       rmse (tr_metrics ([demo_result ''SARIMA'' 3, demo_result ''LSTM'' 3] ! j))"
    unfolding v by blast
  have "i = 0"
  proof (rule ccontr)
    assume "i \<noteq> 0"
    with i have i1: "i = 1" by simp
    from first[rule_format, of 0] show False
      by (simp add: i1 best demo_result_def)
  qed
  with best run show "map_sum id fst (select_best_model ''now'' True ?rs) =
      Inr (demo_result ''SARIMA'' 3)"
    by simp
next
  from select_best_model_lowest_rmse[where a = "demo_result ''A'' 5"
      and b = "demo_result ''B'' 3" and now = "''now''"]
  show "map_sum id fst (select_best_model ''now'' True
     [Some (demo_result ''A'' 5), Some (demo_result ''B'' 3), None]) =
     Inr (demo_result ''B'' 3)"
    by (simp add: demo_result_def)
qed

subsection \<open>Feature engineering\<close>

lemma groupby_transform_length: "length (groupby_transform key col f tbl) = length tbl"
  by (simp add: groupby_transform_def)

lemma groupby_transform_nth:
  "p < length tbl \<Longrightarrow>
   groupby_transform key col f tbl ! p =
     f (map col (filter (\<lambda>r. key r = key (tbl ! p)) tbl)) ! group_rank key tbl p"
  by (simp add: groupby_transform_def)

lemma group_features_length: "length (group_features tbl) = length tbl"
  by (simp add: group_features_def Let_def)

lemma group_features_nth:
  assumes "p < length tbl"
  shows "group_features tbl ! p =
     stat_row (tbl ! p) (map sales (filter (\<lambda>r. item r = item (tbl ! p)) tbl))
       (group_rank item tbl p)
       (map (\<lambda>c. (''cat_'' @ c, item_categories (item (tbl ! p)) = Some c))
            (dummy_columns (map (\<lambda>r. item_categories (item r)) tbl)))"
  using assms
  by (simp add: group_features_def Let_def stat_row_def groupby_transform_nth)

lemma stat_row_base [simp]:
  "item (stat_row r S k ds) = item r" "date (stat_row r S k ds) = date r"
  "sales (stat_row r S k ds) = sales r"
  "item_category (stat_row r S k ds) = item_categories (item r)"
  "cat_dummies (stat_row r S k ds) = ds"
  by (simp_all add: stat_row_def mrow.defs frow.defs)

lemma map_of_graph_dom: "map_of (map (\<lambda>i. (i, g i)) xs) i = Some c \<Longrightarrow> i \<in> set xs"
  by (induction xs) (auto split: if_splits)

lemma item_categories_dom: "item_categories i = Some c \<Longrightarrow> 1 \<le> i \<and> i \<le> 50"
proof -
  assume "item_categories i = Some c"
  then have "i \<in> set [1..50]"
    unfolding item_categories_def by (rule map_of_graph_dom)
  then show ?thesis by (simp only: set_upto atLeastAtMost_iff)
qed

lemma item_categories_None: "i < 1 \<or> 50 < i \<Longrightarrow> item_categories i = None"
  using item_categories_dom[of i] by (cases "item_categories i") auto

lemma group_features_row:
  assumes "r \<in> set (group_features tbl)"
  shows "item_category r = item_categories (item r)"
proof -
  from assms obtain p where p: "p < length tbl" and r: "r = group_features tbl ! p"
    by (metis in_set_conv_nth group_features_length)
  show ?thesis unfolding r group_features_nth[OF p] by simp
qed

lemma engineer_features_row:
  assumes "r \<in> set (engineer_features cal_of df weather_df sem exm hol vac)"
  shows "item_category r = item_categories (item r)" and "item_category r \<noteq> None"
proof -
  from assms obtain tbl where "r \<in> set (group_features tbl)" and c: "complete r"
    by (auto simp: engineer_features_def Let_def)
  then show "item_category r = item_categories (item r)"
    by (simp add: group_features_row)
  from c show "item_category r \<noteq> None" by (simp add: complete_def)
qed

lemma engineer_features_item_range:
  assumes "r \<in> set (engineer_features cal_of df weather_df sem exm hol vac)"
  shows "1 \<le> item r \<and> item r \<le> 50"
proof -
  from engineer_features_row[OF assms] obtain c where "item_categories (item r) = Some c"
    by (cases "item_categories (item r)") auto
  then show ?thesis by (rule item_categories_dom)
qed

text \<open>
  C10. The category dictionary has no entry for an item number outside 1 to 50. Every
  row of the table that \<^verbatim>\<open>engineer_features\<close> returns has an item number from 1 to
  50, and no returned row belongs to an item of the input whose number is outside that
  range.
\<close>

theorem engineer_features_items:
  "(i < 1 \<or> 50 < i \<longrightarrow> item_categories i = None) \<and>
   (\<forall>r \<in> set (engineer_features cal_of df weather_df sem exm hol vac).
      1 \<le> item r \<and> item r \<le> 50) \<and>
   (s \<in> set df \<and> (s_item s < 1 \<or> 50 < s_item s) \<longrightarrow>
      filter (\<lambda>r. item r = s_item s) (engineer_features cal_of df weather_df sem exm hol vac) = [])"
proof (intro conjI impI ballI)
  assume "i < 1 \<or> 50 < i"
  then show "item_categories i = None" by (rule item_categories_None)
next
  fix r assume "r \<in> set (engineer_features cal_of df weather_df sem exm hol vac)"
  then show "1 \<le> item r" "item r \<le> 50"
    using engineer_features_item_range by blast+
next
  assume "s \<in> set df \<and> (s_item s < 1 \<or> 50 < s_item s)"
  then have "\<forall>r \<in> set (engineer_features cal_of df weather_df sem exm hol vac). item r \<noteq> s_item s"
    using engineer_features_item_range[of _ cal_of df weather_df sem exm hol vac] by fastforce
  then show "filter (\<lambda>r. item r = s_item s)
      (engineer_features cal_of df weather_df sem exm hol vac) = []"
    by (simp add: filter_empty_conv)
qed

lemma shift_length: "length (shift lag xs) = length xs"
  by (simp add: shift_def)

lemma shift_nth:
  "k < length xs \<Longrightarrow> shift lag xs ! k = (if k < lag then None else Some (xs ! (k - lag)))"
proof (cases "k < lag")
  case True
  assume "k < length xs"
  with True show ?thesis by (simp add: shift_def nth_append min_def)
next
  case False
  assume k: "k < length xs"
  with False have "k - lag < length (take (length xs - lag) xs)" by simp
  then have "map Some (take (length xs - lag) xs) ! (k - lag) = Some (xs ! (k - lag))"
    by (simp only: nth_map) simp
  with False k show ?thesis by (simp add: shift_def nth_append min_def)
qed

lemma rolling_nth:
  "k < length xs \<Longrightarrow> rolling w xs ! k = drop (Suc k - w) (take (Suc k) xs)"
  by (simp add: rolling_def)

lemma rolling_std_nth:
  "k < length xs \<Longrightarrow> 2 \<le> w \<Longrightarrow>
   (map sample_std (rolling w xs) ! k \<noteq> None) = (1 \<le> k)"
  by (auto simp: rolling_def sample_std_def min_def)

lemma group_rank_less:
  "p < length tbl \<Longrightarrow>
   group_rank key tbl p < length (filter (\<lambda>r. key r = key (tbl ! p)) tbl)"
proof -
  assume p: "p < length tbl"
  have "tbl = take p tbl @ tbl ! p # drop (Suc p) tbl"
    using p by (simp add: id_take_nth_drop)
  then have "filter (\<lambda>r. key r = key (tbl ! p)) tbl =
      filter (\<lambda>r. key r = key (tbl ! p)) (take p tbl) @ tbl ! p #
      filter (\<lambda>r. key r = key (tbl ! p)) (drop (Suc p) tbl)"
    by (metis (mono_tags, lifting) filter.simps(2) filter_append)
  then show ?thesis by (simp add: group_rank_def)
qed

lemma stat_row_complete:
  assumes "k < length S"
  shows "complete (stat_row r S k ds) =
     (temperature_max r \<noteq> None \<and> temperature_min r \<noteq> None \<and> temperature_mean r \<noteq> None \<and>
      precipitation r \<noteq> None \<and> rainfall r \<noteq> None \<and> temp_range r \<noteq> None \<and>
      28 \<le> k \<and> item_categories (item r) \<noteq> None)"
proof -
  have l: "shift 1 S ! k \<noteq> None \<longleftrightarrow> 1 \<le> k" "shift 7 S ! k \<noteq> None \<longleftrightarrow> 7 \<le> k"
    "shift 14 S ! k \<noteq> None \<longleftrightarrow> 14 \<le> k" "shift 28 S ! k \<noteq> None \<longleftrightarrow> 28 \<le> k"
    using assms by (auto simp: shift_nth)
  have s: "map sample_std (rolling 7 S) ! k \<noteq> None \<longleftrightarrow> 1 \<le> k"
    "map sample_std (rolling 14 S) ! k \<noteq> None \<longleftrightarrow> 1 \<le> k"
    "map sample_std (rolling 30 S) ! k \<noteq> None \<longleftrightarrow> 1 \<le> k"
    using rolling_std_nth[OF assms, of 7] rolling_std_nth[OF assms, of 14]
      rolling_std_nth[OF assms, of 30] by simp_all
  have "complete (stat_row r S k ds) =
     (temperature_max r \<noteq> None \<and> temperature_min r \<noteq> None \<and> temperature_mean r \<noteq> None \<and>
      precipitation r \<noteq> None \<and> rainfall r \<noteq> None \<and> temp_range r \<noteq> None \<and>
      shift 1 S ! k \<noteq> None \<and> shift 7 S ! k \<noteq> None \<and> shift 14 S ! k \<noteq> None \<and>
      shift 28 S ! k \<noteq> None \<and> map sample_std (rolling 7 S) ! k \<noteq> None \<and>
      map sample_std (rolling 14 S) ! k \<noteq> None \<and> map sample_std (rolling 30 S) ! k \<noteq> None \<and>
      item_categories (item r) \<noteq> None)"
    by (simp add: complete_def stat_row_def mrow.defs frow.defs)
  also have "\<dots> = (temperature_max r \<noteq> None \<and> temperature_min r \<noteq> None \<and> temperature_mean r \<noteq> None \<and>
      precipitation r \<noteq> None \<and> rainfall r \<noteq> None \<and> temp_range r \<noteq> None \<and>
      28 \<le> k \<and> item_categories (item r) \<noteq> None)"
    unfolding l s by auto
  finally show ?thesis .
qed

lemma feature_row_keys [simp]:
  "date (feature_row c sem exm hol vac dis w) = fst dis"
  "item (feature_row c sem exm hol vac dis w) = fst (snd dis)"
  "sales (feature_row c sem exm hol vac dis w) = snd (snd dis)"
  by (simp_all add: feature_row_def Let_def)

lemma demo_daily_sales:
  "daily_sales demo_sales = map (\<lambda>d. (d, 1, of_int d)) [1..29] @ [(29, 77, 5)]"
  by (simp add: daily_sales_def demo_sales_def upto.simps)

lemma demo_merged:
  "concat (map (merge_weather demo_cal {} {} {} {} demo_weather) (daily_sales demo_sales)) =
     map (\<lambda>d. feature_row demo_cal {} {} {} {} (d, 1, of_int d) (Some (demo_weather_row d)))
       [1..29] @
     [feature_row demo_cal {} {} {} {} (29, 77, 5) (Some (demo_weather_row 29))]"
  by (simp add: demo_daily_sales merge_weather_def demo_weather_def demo_weather_row_def
      upto.simps Let_def)

lemma demo_sorted:
  "sort_key (\<lambda>r. (item r, date r))
     (concat (map (merge_weather demo_cal {} {} {} {} demo_weather) (daily_sales demo_sales))) =
     map (\<lambda>d. feature_row demo_cal {} {} {} {} (d, 1, of_int d) (Some (demo_weather_row d)))
       [1..29] @
     [feature_row demo_cal {} {} {} {} (29, 77, 5) (Some (demo_weather_row 29))]"
  unfolding demo_merged by (simp add: upto.simps)

lemma item_categories_demo: "item_categories 1 = Some ''veg''" "item_categories 77 = None"
  by (simp_all add: item_categories_def categories_def upto.simps)

lemma demo_row:
  "stat_row (feature_row demo_cal {} {} {} {} (29, 1, 29) (Some (demo_weather_row 29)))
     (map of_int [1..29]) 28 [(''cat_veg'', True)]
   \<in> set (engineer_features demo_cal demo_sales demo_weather {} {} {} {})"
proof -
  define tbl where "tbl =
     map (\<lambda>d. feature_row demo_cal {} {} {} {} (d, 1, of_int d) (Some (demo_weather_row d)))
       [1..29] @
     [feature_row demo_cal {} {} {} {} (29, 77, 5) (Some (demo_weather_row 29))]"
  define r where "r = feature_row demo_cal {} {} {} {} (29, 1, 29) (Some (demo_weather_row 29))"
  have len: "length tbl = 30" by (simp add: tbl_def)
  have p: "28 < length tbl" by (simp add: len)
  have row: "tbl ! 28 = r"
    by (simp add: tbl_def r_def upto.simps)
  have grp: "map sales (filter (\<lambda>x. item x = item r) tbl) = map of_int [1..29]"
    by (simp add: tbl_def r_def upto.simps)
  have rank: "group_rank item tbl 28 = 28"
    unfolding group_rank_def row by (simp add: tbl_def r_def upto.simps)
  have cols: "dummy_columns (map (\<lambda>x. item_categories (item x)) tbl) = [''veg'']"
    by (simp add: tbl_def dummy_columns_def item_categories_demo upto.simps)
  have nth: "group_features tbl ! 28 = stat_row r (map of_int [1..29]) 28 [(''cat_veg'', True)]"
    unfolding group_features_nth[OF p] row grp rank cols
    by (simp add: r_def item_categories_demo)
  have "complete (stat_row r (map of_int [1..29]) 28 [(''cat_veg'', True)])"
    by (subst stat_row_complete)
       (simp_all add: r_def feature_row_def demo_weather_row_def Let_def item_categories_demo)
  moreover have "group_features tbl ! 28 \<in> set (group_features tbl)"
    by (rule nth_mem) (simp add: group_features_length len)
  ultimately have "stat_row r (map of_int [1..29]) 28 [(''cat_veg'', True)]
      \<in> set (filter complete (group_features tbl))"
    by (simp add: nth)
  then show ?thesis
    unfolding engineer_features_def Let_def demo_sorted tbl_def r_def .
qed

theorem engineer_features_items_witness:
  "item_categories 77 = None \<and>
   stat_row (feature_row demo_cal {} {} {} {} (29, 1, 29) (Some (demo_weather_row 29)))
     (map of_int [1..29]) 28 [(''cat_veg'', True)]
     \<in> set (engineer_features demo_cal demo_sales demo_weather {} {} {} {}) \<and>
   1 \<le> item (stat_row (feature_row demo_cal {} {} {} {} (29, 1, 29)
                  (Some (demo_weather_row 29))) (map of_int [1..29]) 28 [(''cat_veg'', True)]) \<and>
   item (stat_row (feature_row demo_cal {} {} {} {} (29, 1, 29)
                  (Some (demo_weather_row 29))) (map of_int [1..29]) 28 [(''cat_veg'', True)])
     \<le> 50 \<and>
   \<lparr>s_date = 29, s_store = 2, s_item = 77, s_sales = 5\<rparr> \<in> set demo_sales \<and>
   filter (\<lambda>r. item r = 77)
     (engineer_features demo_cal demo_sales demo_weather {} {} {} {}) = []"
proof -
  have s: "\<lparr>s_date = 29, s_store = 2, s_item = 77, s_sales = 5\<rparr> \<in> set demo_sales"
    by (simp add: demo_sales_def)
  note t = engineer_features_items[of 77 demo_cal demo_sales demo_weather "{}" "{}" "{}" "{}"
      "\<lparr>s_date = 29, s_store = 2, s_item = 77, s_sales = 5\<rparr>"]
  from t have a: "item_categories 77 = None" by simp
  from t demo_row have b:
    "1 \<le> item (stat_row (feature_row demo_cal {} {} {} {} (29, 1, 29)
                  (Some (demo_weather_row 29))) (map of_int [1..29]) 28 [(''cat_veg'', True)]) \<and>
     item (stat_row (feature_row demo_cal {} {} {} {} (29, 1, 29)
                  (Some (demo_weather_row 29))) (map of_int [1..29]) 28 [(''cat_veg'', True)])
       \<le> 50"
    by blast
  from t s have c: "filter (\<lambda>r. item r = 77)
     (engineer_features demo_cal demo_sales demo_weather {} {} {} {}) = []"
    by simp
  from a b c s demo_row show ?thesis by blast
qed

subsection \<open>Grouping by item\<close>

lemma daily_sales_item:
  "filter (\<lambda>x. fst (snd x) = i) (daily_sales df) = daily_sales (filter (\<lambda>s. s_item s = i) df)"
proof -
  define k where "k = (\<lambda>s :: sale. (s_date s, s_item s))"
  define g where "g = (\<lambda>(df :: sale list) (d, j).
     (d, j, sum_list (map s_sales (filter (\<lambda>s. s_date s = d \<and> s_item s = j) df))))"
  define df' where "df' = filter (\<lambda>s. s_item s = i) df"
  have ds: "daily_sales df = map (g df) (sort (remdups (map k df)))" for df
    by (simp add: daily_sales_def g_def k_def)
  have "filter (\<lambda>x. fst (snd x) = i) (map (g df) (sort (remdups (map k df)))) =
      map (g df) (filter (\<lambda>x. snd x = i) (sort (remdups (map k df))))"
    by (simp add: filter_map comp_def g_def case_prod_beta)
  also have "filter (\<lambda>x. snd x = i) (sort (remdups (map k df))) =
      sort (remdups (filter (\<lambda>x. snd x = i) (map k df)))"
    by (simp add: filter_sort remdups_filter)
  also have "filter (\<lambda>x. snd x = i) (map k df) = map k df'"
    by (simp add: filter_map comp_def k_def df'_def)
  also have "map (g df) (sort (remdups (map k df'))) = map (g df') (sort (remdups (map k df')))"
  proof (rule map_cong[OF refl])
    fix x assume "x \<in> set (sort (remdups (map k df')))"
    then have "snd x = i" by (auto simp: k_def df'_def)
    moreover have "filter (\<lambda>s. s_date s = d \<and> s_item s = i) df' =
        filter (\<lambda>s. s_date s = d \<and> s_item s = i) df" for d
      by (auto simp: df'_def intro: filter_cong)
    ultimately show "g df x = g df' x"
      by (cases x) (simp add: g_def)
  qed
  finally show ?thesis by (simp add: ds df'_def)
qed

lemma merge_weather_item:
  "r \<in> set (merge_weather c sem exm hol vac w x) \<Longrightarrow> item r = fst (snd x)"
  by (auto simp: merge_weather_def Let_def split: if_splits)

lemma merged_item:
  "filter (\<lambda>r. item r = i) (concat (map (merge_weather c sem exm hol vac w) xs)) =
   concat (map (merge_weather c sem exm hol vac w) (filter (\<lambda>x. fst (snd x) = i) xs))"
proof (induction xs)
  case Nil
  then show ?case by simp
next
  case (Cons x xs)
  have "filter (\<lambda>r. item r = i) (merge_weather c sem exm hol vac w x) =
      (if fst (snd x) = i then merge_weather c sem exm hol vac w x else [])"
    using merge_weather_item[of _ c sem exm hol vac w x]
    by (auto simp: filter_empty_conv filter_id_conv)
  with Cons.IH show ?case by simp
qed

lemma group_rank_snoc:
  "p < length xs \<Longrightarrow> group_rank key (xs @ [x]) p = group_rank key xs p"
  by (simp add: group_rank_def nth_append)

lemma group_rank_last:
  "group_rank key (xs @ [x]) (length xs) = length (filter (\<lambda>r. key r = key x) xs)"
  by (simp add: group_rank_def)

lemma ranked_rows_item:
  "filter (\<lambda>r. item r = i)
     (map (\<lambda>p. stat_row (tbl ! p) (S (item (tbl ! p))) (group_rank item tbl p) [])
        [0..<length tbl]) =
   map (\<lambda>q. stat_row (filter (\<lambda>r. item r = i) tbl ! q) (S i) q [])
     [0..<length (filter (\<lambda>r. item r = i) tbl)]"
proof (induction tbl rule: rev_induct)
  case Nil
  then show ?case by simp
next
  case (snoc x xs)
  let ?F = "\<lambda>t p. stat_row (t ! p) (S (item (t ! p))) (group_rank item t p) []"
  let ?G = "\<lambda>t q. stat_row (t ! q) (S i) q []"
  let ?f = "filter (\<lambda>r. item r = i)"
  have a: "map (?F (xs @ [x])) [0..<length xs] = map (?F xs) [0..<length xs]"
    by (rule map_cong[OF refl]) (simp add: nth_append group_rank_snoc)
  have b: "?F (xs @ [x]) (length xs) =
      stat_row x (S (item x)) (length (filter (\<lambda>r. item r = item x) xs)) []"
    by (simp add: group_rank_last)
  have c: "map (?G (?f xs @ [x])) [0..<length (?f xs)] = map (?G (?f xs)) [0..<length (?f xs)]"
    by (rule map_cong[OF refl]) (simp add: nth_append)
  have l: "map (?F (xs @ [x])) [0..<length (xs @ [x])] =
      map (?F xs) [0..<length xs] @
      [stat_row x (S (item x)) (length (filter (\<lambda>r. item r = item x) xs)) []]"
    using a b by simp
  show ?case
  proof (cases "item x = i")
    case True
    have "map (?G (?f (xs @ [x]))) [0..<length (?f (xs @ [x]))] =
        map (?G (?f xs)) [0..<length (?f xs)] @ [stat_row x (S i) (length (?f xs)) []]"
      using True c by simp
    then show ?thesis
      unfolding l using True snoc.IH by simp
  next
    case False
    then show ?thesis
      unfolding l using snoc.IH by simp
  qed
qed

lemma stat_row_no_dummies: "(stat_row r S k ds)\<lparr>cat_dummies := []\<rparr> = stat_row r S k []"
  by (simp add: stat_row_def mrow.defs frow.defs)

lemma group_features_no_dummies:
  "map (\<lambda>r. r\<lparr>cat_dummies := []\<rparr>) (group_features tbl) =
   map (\<lambda>p. stat_row (tbl ! p) (map sales (filter (\<lambda>r. item r = item (tbl ! p)) tbl))
               (group_rank item tbl p) [])
     [0..<length tbl]"
  by (rule nth_equalityI)
     (simp_all add: group_features_length group_features_nth stat_row_no_dummies)

lemma group_rank_same_key:
  assumes "\<forall>r \<in> set tbl. key r = i" and "q < length tbl"
  shows "group_rank key tbl q = q"
proof -
  have "filter (\<lambda>r. key r = key (tbl ! q)) (take q tbl) = take q tbl"
    using assms by (auto simp: filter_id_conv dest: in_set_takeD)
  then show ?thesis using assms(2) by (simp add: group_rank_def)
qed

lemma group_features_item:
  "map (\<lambda>r. r\<lparr>cat_dummies := []\<rparr>) (filter (\<lambda>r. item r = i) (group_features tbl)) =
   map (\<lambda>r. r\<lparr>cat_dummies := []\<rparr>) (group_features (filter (\<lambda>r. item r = i) tbl))"
proof -
  define tbl' where "tbl' = filter (\<lambda>r. item r = i) tbl"
  define S where "S = (\<lambda>j. map sales (filter (\<lambda>r. item r = j) tbl))"
  have all: "\<forall>r \<in> set tbl'. item r = i" by (simp add: tbl'_def)
  have "map (\<lambda>r. r\<lparr>cat_dummies := []\<rparr>) (filter (\<lambda>r. item r = i) (group_features tbl)) =
      filter (\<lambda>r. item r = i) (map (\<lambda>r. r\<lparr>cat_dummies := []\<rparr>) (group_features tbl))"
    by (simp add: filter_map comp_def)
  also have "\<dots> = filter (\<lambda>r. item r = i)
      (map (\<lambda>p. stat_row (tbl ! p) (S (item (tbl ! p))) (group_rank item tbl p) [])
         [0..<length tbl])"
    by (simp only: group_features_no_dummies S_def)
  also have "\<dots> = map (\<lambda>q. stat_row (tbl' ! q) (S i) q []) [0..<length tbl']"
    unfolding tbl'_def by (rule ranked_rows_item)
  also have "\<dots> = map (\<lambda>q. stat_row (tbl' ! q)
        (map sales (filter (\<lambda>r. item r = item (tbl' ! q)) tbl')) (group_rank item tbl' q) [])
      [0..<length tbl']"
  proof (rule map_cong[OF refl])
    fix q assume "q \<in> set [0..<length tbl']"
    then have q: "q < length tbl'" by simp
    then have "item (tbl' ! q) = i" using all by simp
    moreover have "filter (\<lambda>r. item r = i) tbl' = tbl'" by (simp add: tbl'_def)
    moreover have "group_rank item tbl' q = q"
      using all q by (rule group_rank_same_key)
    ultimately show "stat_row (tbl' ! q) (S i) q [] =
        stat_row (tbl' ! q) (map sales (filter (\<lambda>r. item r = item (tbl' ! q)) tbl'))
          (group_rank item tbl' q) []"
      by (simp add: S_def tbl'_def)
  qed
  also have "\<dots> = map (\<lambda>r. r\<lparr>cat_dummies := []\<rparr>) (group_features tbl')"
    by (simp only: group_features_no_dummies)
  finally show ?thesis by (simp only: tbl'_def)
qed

lemma complete_no_dummies: "complete (r\<lparr>cat_dummies := []\<rparr>) = complete r"
  by (simp add: complete_def)

lemma engineer_features_item:
  "map (\<lambda>r. r\<lparr>cat_dummies := []\<rparr>)
     (filter (\<lambda>r. item r = i) (engineer_features c df w sem exm hol vac)) =
   map (\<lambda>r. r\<lparr>cat_dummies := []\<rparr>)
     (engineer_features c (filter (\<lambda>s. s_item s = i) df) w sem exm hol vac)"
proof -
  define T where "T = (\<lambda>df. sort_key (\<lambda>r. (item r, date r))
      (concat (map (merge_weather c sem exm hol vac w) (daily_sales df))))"
  define v where "v = (\<lambda>r :: frow. r\<lparr>cat_dummies := []\<rparr>)"
  have E: "engineer_features c df w sem exm hol vac = filter complete (group_features (T df))"
    for df
    by (simp add: engineer_features_def Let_def T_def)
  have T: "filter (\<lambda>r. item r = i) (T df) = T (filter (\<lambda>s. s_item s = i) df)"
    by (simp add: T_def filter_sort merged_item daily_sales_item)
  have cv: "filter complete (map v xs) = map v (filter complete xs)" for xs
    by (simp add: filter_map comp_def v_def complete_no_dummies)
  have "map v (filter (\<lambda>r. item r = i) (filter complete (group_features (T df)))) =
      map v (filter complete (filter (\<lambda>r. item r = i) (group_features (T df))))"
    by (simp add: conj_commute)
  also have "\<dots> = filter complete (map v (filter (\<lambda>r. item r = i) (group_features (T df))))"
    by (simp only: cv)
  also have "\<dots> = filter complete
      (map v (group_features (filter (\<lambda>r. item r = i) (T df))))"
    unfolding v_def by (simp only: group_features_item)
  also have "\<dots> = map v (filter complete (group_features (T (filter (\<lambda>s. s_item s = i) df))))"
    by (simp only: cv T)
  finally show ?thesis by (simp only: E v_def)
qed

text \<open>
  C2. The rows of an item \<open>i\<close> in the table that \<^verbatim>\<open>engineer_features\<close> returns are,
  in every column but the category indicators (whose set depends on the categories
  present), the rows it returns when the sales table holds the records of item \<open>i\<close>
  only. So the four lags, the rolling means and deviations and the expanding mean of a
  row of item \<open>i\<close> are computed from the sales of item \<open>i\<close> alone: two sales tables
  with the same records of item \<open>i\<close> give the same rows for it, whatever their other
  records.
\<close>

theorem lag_features_per_item:
  "map (\<lambda>r. r\<lparr>cat_dummies := []\<rparr>)
     (filter (\<lambda>r. item r = i) (engineer_features c df w sem exm hol vac)) =
   map (\<lambda>r. r\<lparr>cat_dummies := []\<rparr>)
     (engineer_features c (filter (\<lambda>s. s_item s = i) df) w sem exm hol vac) \<and>
   (filter (\<lambda>s. s_item s = i) df = filter (\<lambda>s. s_item s = i) df' \<longrightarrow>
      map (\<lambda>r. (date r, sales_lag_1 r, sales_lag_7 r, sales_lag_14 r, sales_lag_28 r,
                sales_rolling_mean_7 r, sales_rolling_std_7 r, sales_rolling_mean_14 r,
                sales_rolling_std_14 r, sales_rolling_mean_30 r, sales_rolling_std_30 r,
                sales_expanding_mean r))
        (filter (\<lambda>r. item r = i) (engineer_features c df w sem exm hol vac)) =
      map (\<lambda>r. (date r, sales_lag_1 r, sales_lag_7 r, sales_lag_14 r, sales_lag_28 r,
                sales_rolling_mean_7 r, sales_rolling_std_7 r, sales_rolling_mean_14 r,
                sales_rolling_std_14 r, sales_rolling_mean_30 r, sales_rolling_std_30 r,
                sales_expanding_mean r))
        (filter (\<lambda>r. item r = i) (engineer_features c df' w sem exm hol vac)))"
proof (intro conjI impI)
  show "map (\<lambda>r. r\<lparr>cat_dummies := []\<rparr>)
     (filter (\<lambda>r. item r = i) (engineer_features c df w sem exm hol vac)) =
   map (\<lambda>r. r\<lparr>cat_dummies := []\<rparr>)
     (engineer_features c (filter (\<lambda>s. s_item s = i) df) w sem exm hol vac)"
    by (rule engineer_features_item)
next
  let ?v = "\<lambda>r :: frow. r\<lparr>cat_dummies := []\<rparr>"
  let ?t = "\<lambda>r :: frow. (date r, sales_lag_1 r, sales_lag_7 r, sales_lag_14 r, sales_lag_28 r,
                sales_rolling_mean_7 r, sales_rolling_std_7 r, sales_rolling_mean_14 r,
                sales_rolling_std_14 r, sales_rolling_mean_30 r, sales_rolling_std_30 r,
                sales_expanding_mean r)"
  assume same: "filter (\<lambda>s. s_item s = i) df = filter (\<lambda>s. s_item s = i) df'"
  have tv: "map ?t xs = map ?t (map ?v xs)" for xs
    by (simp add: comp_def)
  have "map ?v (filter (\<lambda>r. item r = i) (engineer_features c df w sem exm hol vac)) =
      map ?v (filter (\<lambda>r. item r = i) (engineer_features c df' w sem exm hol vac))"
    by (simp only: engineer_features_item same)
  then have "map ?t (map ?v (filter (\<lambda>r. item r = i) (engineer_features c df w sem exm hol vac))) =
      map ?t (map ?v (filter (\<lambda>r. item r = i) (engineer_features c df' w sem exm hol vac)))"
    by (rule arg_cong)
  then show "map ?t (filter (\<lambda>r. item r = i) (engineer_features c df w sem exm hol vac)) =
      map ?t (filter (\<lambda>r. item r = i) (engineer_features c df' w sem exm hol vac))"
    by (simp only: tv[symmetric])
qed

theorem lag_features_per_item_witness:
  "filter (\<lambda>s. s_item s = 1) demo_sales =
     filter (\<lambda>s. s_item s = 1)
       (\<lparr>s_date = 28, s_store = 1, s_item = 2, s_sales = 1000\<rparr> # demo_sales) \<and>
   map (\<lambda>r. (date r, sales_lag_1 r, sales_lag_7 r, sales_lag_14 r, sales_lag_28 r,
                sales_rolling_mean_7 r, sales_rolling_std_7 r, sales_rolling_mean_14 r,
                sales_rolling_std_14 r, sales_rolling_mean_30 r, sales_rolling_std_30 r,
                sales_expanding_mean r))
     (filter (\<lambda>r. item r = 1)
        (engineer_features demo_cal demo_sales demo_weather {} {} {} {})) =
   map (\<lambda>r. (date r, sales_lag_1 r, sales_lag_7 r, sales_lag_14 r, sales_lag_28 r,
                sales_rolling_mean_7 r, sales_rolling_std_7 r, sales_rolling_mean_14 r,
                sales_rolling_std_14 r, sales_rolling_mean_30 r, sales_rolling_std_30 r,
                sales_expanding_mean r))
     (filter (\<lambda>r. item r = 1)
        (engineer_features demo_cal
           (\<lparr>s_date = 28, s_store = 1, s_item = 2, s_sales = 1000\<rparr> # demo_sales)
           demo_weather {} {} {} {}))"
proof -
  have h: "filter (\<lambda>s. s_item s = 1) demo_sales =
     filter (\<lambda>s. s_item s = 1)
       (\<lparr>s_date = 28, s_store = 1, s_item = 2, s_sales = 1000\<rparr> # demo_sales)"
    by simp
  from lag_features_per_item[of 1 demo_cal demo_sales demo_weather "{}" "{}" "{}" "{}"
      "\<lparr>s_date = 28, s_store = 1, s_item = 2, s_sales = 1000\<rparr> # demo_sales"] h
  show ?thesis by blast
qed

lemma demo_row_values:
  "sales_lag_1 (stat_row r (map of_int [1..29]) 28 ds) = Some 28"
  "sales_lag_7 (stat_row r (map of_int [1..29]) 28 ds) = Some 22"
  "sales_lag_14 (stat_row r (map of_int [1..29]) 28 ds) = Some 15"
  "sales_lag_28 (stat_row r (map of_int [1..29]) 28 ds) = Some 1"
  "sales_rolling_mean_7 (stat_row r (map of_int [1..29]) 28 ds) = 26"
  "sales_expanding_mean (stat_row r (map of_int [1..29]) 28 ds) = 15"
  by (simp_all add: stat_row_def mrow.defs frow.defs shift_nth rolling_def expanding_def
      np_mean_def upto.simps)

(*THMS_END*)

end
